theory Spec2Isabelle
  imports Main
begin

section \<open>Data model\<close>

text \<open>
  The checkout-to-order workflow of the storefront: the checkout endpoint
  (\<^verbatim>\<open>src/app/api/stripe/checkout/route.ts\<close>), the payment webhook
  (\<^verbatim>\<open>src/app/api/stripe/webhook/route.ts\<close>), the row types of
  \<^verbatim>\<open>src/types/index.ts\<close> and the tables of
  \<^verbatim>\<open>src/supabase/migrations/001_initial_schema.sql\<close>.

  Identifiers (UUID columns, Stripe ids) are strings. Amounts are integers in cents; the
  JavaScript numbers of the source are modelled as \<^typ>\<open>int\<close>, which is what they are
  as long as every value stays below \<open>2^53\<close>. The columns \<^verbatim>\<open>created_at\<close> and
  \<^verbatim>\<open>updated_at\<close> hold wall-clock time and are left out of the rows.
\<close>

type_synonym ident = string

datatype order_status = Pending | Processing | Completed | Cancelled

text \<open>A row of \<^verbatim>\<open>products\<close>; only the columns the workflow reads.\<close>

record product =
  prod_id :: ident
  prod_name :: string
  prod_description :: string
  prod_price :: int
  prod_image_url :: string

text \<open>
  The validated shipping address (\<^verbatim>\<open>ShippingAddress\<close>, the output of
  \<^verbatim>\<open>shippingAddressSchema\<close>).
\<close>

record shipping_address =
  full_name :: string
  address_line1 :: string
  address_line2 :: "string option"
  city :: string
  state :: string
  postal_code :: string
  country :: string
  phone :: "string option"

text \<open>A row of \<^verbatim>\<open>orders\<close>.\<close>

record order =
  ord_id :: ident
  ord_user_id :: "ident option"
  ord_email :: string
  ord_total_amount :: int
  ord_status :: order_status
  ord_stripe_session_id :: "string option"
  ord_stripe_payment_intent :: "string option"
  ord_shipping_address :: shipping_address

text \<open>A row of \<^verbatim>\<open>order_items\<close>.\<close>

record order_item =
  oi_order_id :: ident
  oi_product_id :: ident
  oi_product_name :: string
  oi_product_price :: int
  oi_quantity :: int

text \<open>A row of \<^verbatim>\<open>cart_items\<close>.\<close>

record cart_row =
  cart_user_id :: "ident option"
  cart_session_id :: "string option"
  cart_product_id :: ident
  cart_quantity :: int

text \<open>The tables, each in insertion order.\<close>

record database =
  products :: "product list"
  orders :: "order list"
  order_items :: "order_item list"
  cart_items :: "cart_row list"

text \<open>
  Every query a handler makes on a table through a Supabase client is written to a log, in
  the order of the calls, so that "no store read or write happens" is a statement about the
  log. (\<^verbatim>\<open>supabase.auth.getUser()\<close> reads the session, not a table, and is not
  logged.)
\<close>

datatype store_op =
    Select_products "ident list"
  | Insert_order
  | Insert_order_items
  | Update_order ident
  | Select_orders_by_payment_intent string
  | Delete_cart_items ident

fun is_write :: "store_op \<Rightarrow> bool" where
  "is_write (Select_products _) = False"
| "is_write (Select_orders_by_payment_intent _) = False"
| "is_write _ = True"

subsection \<open>Errors and responses\<close>

text \<open>
  An error object returned by the store: either reported by the service for a reason outside
  the rows (network, permissions, malformed identifier), or one of the schema's constraints.
\<close>

datatype db_error =
    Reported string
  | Not_null_violation string
  | Unique_violation string
  | Check_violation string

text \<open>One issue of a \<^verbatim>\<open>ZodError\<close>: the path of the field and what is wrong with it.\<close>

datatype issue_code = Invalid_type | Too_small string

type_synonym zod_issue = "string \<times> issue_code"

text \<open>
  What the \<^verbatim>\<open>try\<close> block of the checkout handler can throw:
  \<^item> \<open>Body_error\<close>: \<^verbatim>\<open>request.json()\<close> rejects, or the body cannot be destructured;
  \<^item> \<open>Zod_error\<close>: \<^verbatim>\<open>shippingAddressSchema.parse\<close> throws;
  \<^item> \<open>Postgrest_error\<close>: \<^verbatim>\<open>throw productsError\<close>, \<^verbatim>\<open>throw orderError\<close>,
    \<^verbatim>\<open>throw orderItemsError\<close>;
  \<^item> \<open>Product_not_found id\<close>: \<^verbatim>\<open>throw new Error(`Product ${item.product_id} not found`)\<close>;
  \<^item> \<open>Type_error\<close>: reading a property of \<^verbatim>\<open>undefined\<close> through \<^verbatim>\<open>product!\<close>;
  \<^item> \<open>Stripe_error\<close>: \<^verbatim>\<open>stripe.checkout.sessions.create\<close> rejects.
\<close>

datatype thrown =
    Body_error
  | Zod_error "zod_issue list"
  | Postgrest_error db_error
  | Product_not_found ident
  | Type_error
  | Stripe_error string

text \<open>
  The JSON bodies of the responses. \<open>Checkout_failed e\<close> stands for
  \<^verbatim>\<open>{ error: error.message || 'Failed to create checkout session' }\<close> where \<open>e\<close> was
  caught; the model keeps the caught value instead of its message text.
\<close>

datatype payload =
    Unauthorized
  | Cart_is_empty
  | Checkout_failed thrown
  | Checkout_session string "string option"
  | No_signature
  | Webhook_error string
  | Webhook_handler_failed
  | Received

record response =
  status :: nat
  payload :: payload

definition json_response :: "payload \<Rightarrow> nat \<Rightarrow> response" where
  "json_response p s = \<lparr>status = s, payload = p\<rparr>"

type_synonym outcome = "response \<times> database \<times> store_op list"

text \<open>JavaScript truthiness of a string that may be \<^verbatim>\<open>undefined\<close> or \<^verbatim>\<open>null\<close>.\<close>

fun truthy :: "string option \<Rightarrow> bool" where
  "truthy None = False"
| "truthy (Some s) = (s \<noteq> [])"

section \<open>Shipping address validation\<close>

text \<open>
  A field of the submitted \<^verbatim>\<open>shipping_address\<close> object: absent, a string, or a
  value of another JSON type.
\<close>

datatype jfield = Missing | Str string | Non_string

record address_input =
  in_full_name :: jfield
  in_address_line1 :: jfield
  in_address_line2 :: jfield
  in_city :: jfield
  in_state :: jfield
  in_postal_code :: jfield
  in_country :: jfield
  in_phone :: jfield

text \<open>\<^verbatim>\<open>z.string().min(1, msg)\<close> on the field at \<open>path\<close>.\<close>

fun required_string :: "string \<Rightarrow> string \<Rightarrow> jfield \<Rightarrow> zod_issue list" where
  "required_string path msg (Str s) = (if length s < 1 then [(path, Too_small msg)] else [])"
| "required_string path msg _ = [(path, Invalid_type)]"

text \<open>\<^verbatim>\<open>z.string().optional()\<close>.\<close>

fun optional_string :: "string \<Rightarrow> jfield \<Rightarrow> zod_issue list" where
  "optional_string path Non_string = [(path, Invalid_type)]"
| "optional_string path _ = []"

fun string_of :: "jfield \<Rightarrow> string" where
  "string_of (Str s) = s"
| "string_of _ = []"

fun optional_of :: "jfield \<Rightarrow> string option" where
  "optional_of (Str s) = Some s"
| "optional_of _ = None"

definition address_issues :: "address_input \<Rightarrow> zod_issue list" where
  "address_issues a =
     required_string ''full_name'' ''Full name is required'' (in_full_name a) @
     required_string ''address_line1'' ''Address is required'' (in_address_line1 a) @
     optional_string ''address_line2'' (in_address_line2 a) @
     required_string ''city'' ''City is required'' (in_city a) @
     required_string ''state'' ''State is required'' (in_state a) @
     required_string ''postal_code'' ''Postal code is required'' (in_postal_code a) @
     required_string ''country'' ''Country is required'' (in_country a) @
     optional_string ''phone'' (in_phone a)"

text \<open>
  \<^verbatim>\<open>shippingAddressSchema.parse(shipping_address)\<close>. The argument is \<open>None\<close> when the
  body's \<^verbatim>\<open>shipping_address\<close> is not an object.
\<close>

definition parse_shipping_address :: "address_input option \<Rightarrow> thrown + shipping_address" where
  "parse_shipping_address inp =
     (case inp of
        None \<Rightarrow> Inl (Zod_error [([], Invalid_type)])
      | Some a \<Rightarrow>
          (if address_issues a \<noteq> [] then Inl (Zod_error (address_issues a))
           else Inr \<lparr>full_name = string_of (in_full_name a),
                     address_line1 = string_of (in_address_line1 a),
                     address_line2 = optional_of (in_address_line2 a),
                     city = string_of (in_city a),
                     state = string_of (in_state a),
                     postal_code = string_of (in_postal_code a),
                     country = string_of (in_country a),
                     phone = optional_of (in_phone a)\<rparr>))"

section \<open>The checkout endpoint\<close>

text \<open>
  An element of the submitted \<^verbatim>\<open>cart_items\<close>. The handler reads
  \<^verbatim>\<open>product_id\<close> and \<^verbatim>\<open>quantity\<close>; \<open>item_price\<close> is a price the client may
  send along, which the handler never reads.
\<close>

record cart_item =
  item_product_id :: ident
  item_quantity :: int
  item_price :: "int option"

text \<open>
  The parsed request body. \<open>body_cart_items\<close> is \<open>None\<close> when \<^verbatim>\<open>cart_items\<close> is
  absent or \<^verbatim>\<open>null\<close>.
\<close>

record checkout_body =
  body_shipping_address :: "address_input option"
  body_cart_items :: "cart_item list option"

text \<open>The request: \<open>None\<close> when \<^verbatim>\<open>request.json()\<close> rejects.\<close>

type_synonym checkout_request = "checkout_body option"

record user =
  user_id :: ident
  user_email :: "string option"

record line_item =
  li_name :: string
  li_description :: string
  li_images :: "string list"
  li_unit_amount :: int
  li_quantity :: int

record stripe_request =
  req_line_items :: "line_item list"
  req_customer_email :: "string option"
  req_metadata :: "(string \<times> string) list"

record stripe_session =
  session_id :: string
  session_url :: "string option"

text \<open>
  The Supabase clients are made by \<^verbatim>\<open>createServerSupabaseClient\<close> and
  \<^verbatim>\<open>createAdminClient\<close> of \<^verbatim>\<open>@/lib/supabase\<close>, which is not among the
  sources, and the Stripe client is a library object. Whether a call on them succeeds is
  therefore a parameter of the model; what a successful call does to the rows follows the
  query written in the handler and the constraints of the schema.

  What the services outside the handler answer during one checkout request:
  \<^item> \<open>auth_error\<close>, \<open>auth_user\<close>: the result of \<^verbatim>\<open>supabase.auth.getUser()\<close>;
  \<^item> \<open>products_error\<close>, \<open>order_error\<close>, \<open>order_items_error\<close>: an error the store
    reports for the products select, the order insert, the order-items insert;
  \<^item> \<open>generated_order_id\<close>: the value of \<^verbatim>\<open>uuid_generate_v4()\<close> for the new order;
  \<^item> \<open>stripe_create\<close>: \<^verbatim>\<open>stripe.checkout.sessions.create\<close>, \<open>Inl\<close> when it rejects;
  \<^item> \<open>session_update_fails\<close>: the store reports an error for the last update (the
    handler does not look at it).
\<close>

record checkout_env =
  auth_error :: bool
  auth_user :: "user option"
  products_error :: "string option"
  order_error :: "string option"
  generated_order_id :: ident
  order_items_error :: "string option"
  stripe_create :: "stripe_request \<Rightarrow> string + stripe_session"
  session_update_fails :: bool

subsection \<open>Store calls of the checkout endpoint\<close>

text \<open>\<^verbatim>\<open>supabase.from('products').select('*').in('id', productIds)\<close>\<close>

definition select_products :: "checkout_env \<Rightarrow> ident list \<Rightarrow> database \<Rightarrow> thrown + product list" where
  "select_products env ids db =
     (case products_error env of
        Some m \<Rightarrow> Inl (Postgrest_error (Reported m))
      | None \<Rightarrow> Inr (filter (\<lambda>p. prod_id p \<in> set ids) (products db)))"

text \<open>
  \<^verbatim>\<open>supabaseAdmin.from('orders').insert({...}).select().single()\<close>. The schema wants
  \<^verbatim>\<open>email TEXT NOT NULL\<close> and \<^verbatim>\<open>id UUID PRIMARY KEY\<close>; the other columns get
  their defaults.
\<close>

definition insert_order ::
  "checkout_env \<Rightarrow> user \<Rightarrow> int \<Rightarrow> shipping_address \<Rightarrow> database \<Rightarrow> thrown + (order \<times> database)" where
  "insert_order env u totalAmount addr db =
     (case order_error env of
        Some m \<Rightarrow> Inl (Postgrest_error (Reported m))
      | None \<Rightarrow>
          (case user_email u of
             None \<Rightarrow> Inl (Postgrest_error (Not_null_violation ''email''))
           | Some mail \<Rightarrow>
               (if generated_order_id env \<in> set (map ord_id (orders db))
                then Inl (Postgrest_error (Unique_violation ''id''))
                else
                  (let row = \<lparr>ord_id = generated_order_id env,
                                ord_user_id = Some (user_id u),
                                ord_email = mail,
                                ord_total_amount = totalAmount,
                                ord_status = Pending,
                                ord_stripe_session_id = None,
                                ord_stripe_payment_intent = None,
                                ord_shipping_address = addr\<rparr>
                   in Inr (row, db\<lparr>orders := orders db @ [row]\<rparr>)))))"

text \<open>
  \<^verbatim>\<open>supabaseAdmin.from('order_items').insert(orderItems)\<close>: one statement, so either
  every row is inserted or none. The schema wants \<^verbatim>\<open>CHECK (quantity > 0)\<close>.
\<close>

definition insert_order_items :: "checkout_env \<Rightarrow> order_item list \<Rightarrow> database \<Rightarrow> thrown + database" where
  "insert_order_items env rows db =
     (case order_items_error env of
        Some m \<Rightarrow> Inl (Postgrest_error (Reported m))
      | None \<Rightarrow>
          (if list_ex (\<lambda>r. oi_quantity r \<le> 0) rows
           then Inl (Postgrest_error (Check_violation ''quantity''))
           else Inr (db\<lparr>order_items := order_items db @ rows\<rparr>)))"

text \<open>
  \<^verbatim>\<open>supabaseAdmin.from('orders').update({ stripe_session_id: session.id }).eq('id', order.id)\<close>
\<close>

definition update_session_id :: "checkout_env \<Rightarrow> ident \<Rightarrow> string \<Rightarrow> database \<Rightarrow> database" where
  "update_session_id env oid sid db =
     (if session_update_fails env then db
      else db\<lparr>orders :=
             map (\<lambda>r. if ord_id r = oid then r\<lparr>ord_stripe_session_id := Some sid\<rparr> else r)
                 (orders db)\<rparr>)"

subsection \<open>Pricing\<close>

text \<open>\<^verbatim>\<open>products?.find(p => p.id === item.product_id)\<close>\<close>

definition find_product :: "product list \<Rightarrow> ident \<Rightarrow> product option" where
  "find_product ps pid = List.find (\<lambda>p. prod_id p = pid) ps"

text \<open>
  The \<^verbatim>\<open>lineItems\<close> mapping: it throws at the first item whose product is not among
  the selected rows.
\<close>

fun line_items :: "product list \<Rightarrow> cart_item list \<Rightarrow> thrown + line_item list" where
  "line_items ps [] = Inr []"
| "line_items ps (item # rest) =
     (case find_product ps (item_product_id item) of
        None \<Rightarrow> Inl (Product_not_found (item_product_id item))
      | Some p \<Rightarrow>
          (case line_items ps rest of
             Inl e \<Rightarrow> Inl e
           | Inr ls \<Rightarrow>
               Inr (\<lparr>li_name = prod_name p,
                      li_description = prod_description p,
                      li_images = [prod_image_url p],
                      li_unit_amount = prod_price p,
                      li_quantity = item_quantity item\<rparr> # ls)))"

text \<open>
  The \<^verbatim>\<open>reduce\<close> that computes \<^verbatim>\<open>totalAmount\<close>, from the accumulator \<open>acc\<close>.
  \<^verbatim>\<open>product!.price\<close> on an item without a product is a \<^verbatim>\<open>TypeError\<close>.
\<close>

fun total_amount :: "product list \<Rightarrow> int \<Rightarrow> cart_item list \<Rightarrow> thrown + int" where
  "total_amount ps acc [] = Inr acc"
| "total_amount ps acc (item # rest) =
     (case find_product ps (item_product_id item) of
        None \<Rightarrow> Inl Type_error
      | Some p \<Rightarrow> total_amount ps (acc + prod_price p * item_quantity item) rest)"

text \<open>The \<^verbatim>\<open>orderItems\<close> mapping, with the same \<^verbatim>\<open>product!\<close>.\<close>

fun order_items_for :: "ident \<Rightarrow> product list \<Rightarrow> cart_item list \<Rightarrow> thrown + order_item list" where
  "order_items_for oid ps [] = Inr []"
| "order_items_for oid ps (item # rest) =
     (case find_product ps (item_product_id item) of
        None \<Rightarrow> Inl Type_error
      | Some p \<Rightarrow>
          (case order_items_for oid ps rest of
             Inl e \<Rightarrow> Inl e
           | Inr rows \<Rightarrow>
               Inr (\<lparr>oi_order_id = oid,
                      oi_product_id = item_product_id item,
                      oi_product_name = prod_name p,
                      oi_product_price = prod_price p,
                      oi_quantity = item_quantity item\<rparr> # rows)))"

subsection \<open>The handler\<close>

text \<open>The \<^verbatim>\<open>catch\<close> block: status 500 with the caught error.\<close>

definition caught :: "thrown \<Rightarrow> response" where
  "caught e = json_response (Checkout_failed e) 500"

text \<open>
  From the order insert to the end of the \<^verbatim>\<open>try\<close> block (lines 62 to 121), given the
  selected products, the line items and the total.
\<close>

definition create_order ::
  "checkout_env \<Rightarrow> user \<Rightarrow> shipping_address \<Rightarrow> cart_item list \<Rightarrow> product list \<Rightarrow>
   line_item list \<Rightarrow> int \<Rightarrow> database \<Rightarrow> store_op list \<Rightarrow> outcome" where
  "create_order env u addr items ps lis totalAmount db log =
     (case insert_order env u totalAmount addr db of
        Inl e \<Rightarrow> (caught e, db, log @ [Insert_order])
      | Inr (ord, db1) \<Rightarrow>
          (case order_items_for (ord_id ord) ps items of
             Inl e \<Rightarrow> (caught e, db1, log @ [Insert_order])
           | Inr rows \<Rightarrow>
               (case insert_order_items env rows db1 of
                  Inl e \<Rightarrow> (caught e, db1, log @ [Insert_order, Insert_order_items])
                | Inr db2 \<Rightarrow>
                    (case stripe_create env
                            \<lparr>req_line_items = lis,
                             req_customer_email = user_email u,
                             req_metadata = [(''order_id'', ord_id ord), (''user_id'', user_id u)]\<rparr> of
                       Inl m \<Rightarrow>
                         (caught (Stripe_error m), db2, log @ [Insert_order, Insert_order_items])
                     | Inr session \<Rightarrow>
                         (json_response
                            (Checkout_session (session_id session) (session_url session)) 200,
                          update_session_id env (ord_id ord) (session_id session) db2,
                          log @ [Insert_order, Insert_order_items, Update_order (ord_id ord)])))))"

text \<open>\<^verbatim>\<open>POST\<close> of \<^verbatim>\<open>src/app/api/stripe/checkout/route.ts\<close>.\<close>

definition checkout_POST :: "checkout_env \<Rightarrow> checkout_request \<Rightarrow> database \<Rightarrow> outcome" where
  "checkout_POST env request db =
     (if auth_error env \<or> auth_user env = None then (json_response Unauthorized 401, db, [])
      else
        (case (auth_user env, request) of
           (Some u, Some body) \<Rightarrow>
             (case parse_shipping_address (body_shipping_address body) of
                Inl e \<Rightarrow> (caught e, db, [])
              | Inr validatedAddress \<Rightarrow>
                  (case body_cart_items body of
                     None \<Rightarrow> (json_response Cart_is_empty 400, db, [])
                   | Some [] \<Rightarrow> (json_response Cart_is_empty 400, db, [])
                   | Some items \<Rightarrow>
                       (let productIds = map item_product_id items;
                            log = [Select_products productIds]
                        in case select_products env productIds db of
                             Inl e \<Rightarrow> (caught e, db, log)
                           | Inr ps \<Rightarrow>
                               (case line_items ps items of
                                  Inl e \<Rightarrow> (caught e, db, log)
                                | Inr lis \<Rightarrow>
                                    (case total_amount ps 0 items of
                                       Inl e \<Rightarrow> (caught e, db, log)
                                     | Inr totalAmount \<Rightarrow>
                                         create_order env u validatedAddress items ps lis
                                           totalAmount db log)))))
         | _ \<Rightarrow> (caught Body_error, db, [])))"

text \<open>
  The same request with other client-supplied prices: \<open>f\<close> gives the price sent along
  with each cart item.
\<close>

definition with_client_prices :: "(cart_item \<Rightarrow> int option) \<Rightarrow> checkout_request \<Rightarrow> checkout_request" where
  "with_client_prices f request =
     map_option (\<lambda>body. body\<lparr>body_cart_items :=
        map_option (map (\<lambda>i. i\<lparr>item_price := f i\<rparr>)) (body_cart_items body)\<rparr>) request"

section \<open>The webhook endpoint\<close>

text \<open>
  \<^verbatim>\<open>event.data.object\<close>: a checkout session (with \<^verbatim>\<open>metadata\<close> and
  \<^verbatim>\<open>payment_intent\<close>) or a payment intent (with \<^verbatim>\<open>id\<close>).
\<close>

record stripe_object =
  obj_id :: string
  obj_metadata :: "(string \<times> string) list option"
  obj_payment_intent :: "string option"

record event =
  ev_type :: string
  ev_object :: stripe_object

record webhook_request =
  raw_body :: string
  stripe_signature :: "string option"

text \<open>
  What the services answer during one webhook request:
  \<^item> \<open>construct_event\<close>: \<^verbatim>\<open>stripe.webhooks.constructEvent\<close> with the configured
    secret, \<open>Inl\<close> with the message when the verification throws;
  \<^item> \<open>select_fails\<close>, \<open>update_fails\<close>, \<open>delete_fails\<close>: the store reports an error
    for the call and changes nothing. The client returns the error in its result (the
    checkout handler reads it as \<^verbatim>\<open>const { data, error } = await ...\<close>), and the
    webhook handler does not look at it.
\<close>

record webhook_env =
  construct_event :: "string \<Rightarrow> string \<Rightarrow> string + event"
  select_fails :: bool
  update_fails :: bool
  delete_fails :: bool

text \<open>\<^verbatim>\<open>session.metadata?.order_id\<close>, \<^verbatim>\<open>session.metadata?.user_id\<close>\<close>

definition metadata_field :: "stripe_object \<Rightarrow> string \<Rightarrow> string option" where
  "metadata_field obj key = (case obj_metadata obj of None \<Rightarrow> None | Some m \<Rightarrow> map_of m key)"

text \<open>
  \<^verbatim>\<open>.update({ status: 'completed', stripe_payment_intent: session.payment_intent }).eq('id', orderId)\<close>
\<close>

definition mark_completed :: "webhook_env \<Rightarrow> ident \<Rightarrow> string option \<Rightarrow> database \<Rightarrow> database" where
  "mark_completed env oid intent db =
     (if update_fails env then db
      else db\<lparr>orders :=
             map (\<lambda>r. if ord_id r = oid
                       then r\<lparr>ord_status := Completed, ord_stripe_payment_intent := intent\<rparr>
                       else r)
                 (orders db)\<rparr>)"

text \<open>\<^verbatim>\<open>.from('cart_items').delete().eq('user_id', userId)\<close>\<close>

definition delete_cart_items :: "webhook_env \<Rightarrow> ident \<Rightarrow> database \<Rightarrow> database" where
  "delete_cart_items env uid db =
     (if delete_fails env then db
      else db\<lparr>cart_items := filter (\<lambda>c. cart_user_id c \<noteq> Some uid) (cart_items db)\<rparr>)"

text \<open>
  \<^verbatim>\<open>.from('orders').select('id').eq('stripe_payment_intent', paymentIntent.id)\<close>;
  \<open>None\<close> is \<^verbatim>\<open>data: null\<close>.
\<close>

definition select_orders_by_payment_intent ::
  "webhook_env \<Rightarrow> string \<Rightarrow> database \<Rightarrow> ident list option" where
  "select_orders_by_payment_intent env pid db =
     (if select_fails env then None
      else Some (map ord_id (filter (\<lambda>r. ord_stripe_payment_intent r = Some pid) (orders db))))"

text \<open>\<^verbatim>\<open>.update({ status: 'cancelled' }).eq('id', orders[0].id)\<close>\<close>

definition mark_cancelled :: "webhook_env \<Rightarrow> ident \<Rightarrow> database \<Rightarrow> database" where
  "mark_cancelled env oid db =
     (if update_fails env then db
      else db\<lparr>orders :=
             map (\<lambda>r. if ord_id r = oid then r\<lparr>ord_status := Cancelled\<rparr> else r) (orders db)\<rparr>)"

text \<open>
  The \<^verbatim>\<open>switch\<close> on \<^verbatim>\<open>event.type\<close> with the acknowledgment after it (lines 36 to
  91). No call in it throws: the \<^verbatim>\<open>catch\<close> of lines 92 to 98 is not reached.
\<close>

definition handle_event :: "webhook_env \<Rightarrow> event \<Rightarrow> database \<Rightarrow> outcome" where
  "handle_event env ev db =
     (if ev_type ev = ''checkout.session.completed'' then
        (let session = ev_object ev;
             orderId = metadata_field session ''order_id'';
             userId = metadata_field session ''user_id''
         in if \<not> truthy orderId then (json_response Received 200, db, [])
            else
              (case orderId of
                 None \<Rightarrow> (json_response Received 200, db, [])
               | Some oid \<Rightarrow>
                   (let db1 = mark_completed env oid (obj_payment_intent session) db
                    in case userId of
                         None \<Rightarrow> (json_response Received 200, db1, [Update_order oid])
                       | Some uid \<Rightarrow>
                           (if truthy userId
                            then (json_response Received 200, delete_cart_items env uid db1,
                                  [Update_order oid, Delete_cart_items uid])
                            else (json_response Received 200, db1, [Update_order oid])))))
      else if ev_type ev = ''payment_intent.payment_failed'' then
        (let paymentIntent = ev_object ev;
             log = [Select_orders_by_payment_intent (obj_id paymentIntent)]
         in case select_orders_by_payment_intent env (obj_id paymentIntent) db of
              None \<Rightarrow> (json_response Received 200, db, log)
            | Some [] \<Rightarrow> (json_response Received 200, db, log)
            | Some (oid # _) \<Rightarrow>
                (json_response Received 200, mark_cancelled env oid db, log @ [Update_order oid]))
      else (json_response Received 200, db, []))"

text \<open>\<^verbatim>\<open>POST\<close> of \<^verbatim>\<open>src/app/api/stripe/webhook/route.ts\<close>.\<close>

definition webhook_POST :: "webhook_env \<Rightarrow> webhook_request \<Rightarrow> database \<Rightarrow> outcome" where
  "webhook_POST env request db =
     (if \<not> truthy (stripe_signature request) then (json_response No_signature 400, db, [])
      else
        (case stripe_signature request of
           None \<Rightarrow> (json_response No_signature 400, db, [])
         | Some signature \<Rightarrow>
             (case construct_event env (raw_body request) signature of
                Inl m \<Rightarrow> (json_response (Webhook_error m) 400, db, [])
              | Inr ev \<Rightarrow> handle_event env ev db)))"

section \<open>Sample data\<close>

text \<open>
  A small shop used to run the handlers on concrete inputs: two products of the schema's
  sample data, one customer with one row in her cart, and services that answer without
  errors.
\<close>

definition midnight_oud :: product where
  "midnight_oud = \<lparr>prod_id = ''p1'', prod_name = ''Midnight Oud'',
     prod_description = ''A rich, woody fragrance'', prod_price = 12900,
     prod_image_url = ''oud.jpg''\<rparr>"

definition amber_candle :: product where
  "amber_candle = \<lparr>prod_id = ''p2'', prod_name = ''Amber Noir Candle'',
     prod_description = ''Hand-poured soy candle'', prod_price = 4900,
     prod_image_url = ''candle.jpg''\<rparr>"

definition alice :: user where
  "alice = \<lparr>user_id = ''u1'', user_email = Some ''alice@example.com''\<rparr>"

definition alice_cart_row :: cart_row where
  "alice_cart_row = \<lparr>cart_user_id = Some ''u1'', cart_session_id = None,
     cart_product_id = ''p1'', cart_quantity = 2\<rparr>"

definition shop :: database where
  "shop = \<lparr>products = [midnight_oud, amber_candle], orders = [], order_items = [],
     cart_items = [alice_cart_row]\<rparr>"

definition home_address :: shipping_address where
  "home_address = \<lparr>full_name = ''Alice Doe'', address_line1 = ''1 Main St'',
     address_line2 = None, city = ''Springfield'', state = ''IL'', postal_code = ''62701'',
     country = ''US'', phone = None\<rparr>"

definition home_address_input :: address_input where
  "home_address_input = \<lparr>in_full_name = Str ''Alice Doe'', in_address_line1 = Str ''1 Main St'',
     in_address_line2 = Missing, in_city = Str ''Springfield'', in_state = Str ''IL'',
     in_postal_code = Str ''62701'', in_country = Str ''US'', in_phone = Missing\<rparr>"

definition nameless_address_input :: address_input where
  "nameless_address_input = home_address_input\<lparr>in_full_name := Str []\<rparr>"

definition two_lines :: "cart_item list" where
  "two_lines = [\<lparr>item_product_id = ''p1'', item_quantity = 2, item_price = Some 1\<rparr>,
                \<lparr>item_product_id = ''p2'', item_quantity = 1, item_price = None\<rparr>]"

definition unknown_line :: "cart_item list" where
  "unknown_line = [\<lparr>item_product_id = ''p1'', item_quantity = 1, item_price = None\<rparr>,
                   \<lparr>item_product_id = ''p9'', item_quantity = 1, item_price = None\<rparr>]"

definition checkout_body_of :: "address_input \<Rightarrow> cart_item list \<Rightarrow> checkout_request" where
  "checkout_body_of a items = Some \<lparr>body_shipping_address = Some a, body_cart_items = Some items\<rparr>"

definition new_session :: stripe_session where
  "new_session = \<lparr>session_id = ''cs_1'', session_url = Some ''https://checkout.example/cs_1''\<rparr>"

definition services_up :: checkout_env where
  "services_up = \<lparr>auth_error = False, auth_user = Some alice, products_error = None,
     order_error = None, generated_order_id = ''o1'', order_items_error = None,
     stripe_create = (\<lambda>_. Inr new_session), session_update_fails = False\<rparr>"

text \<open>The same services, but the store reports an error for the order-items insert.\<close>

definition items_insert_down :: checkout_env where
  "items_insert_down = services_up\<lparr>order_items_error := Some ''connection reset''\<rparr>"

definition order_o1 :: "order_status \<Rightarrow> string option \<Rightarrow> order" where
  "order_o1 st intent = \<lparr>ord_id = ''o1'', ord_user_id = Some ''u1'',
     ord_email = ''alice@example.com'', ord_total_amount = 30700, ord_status = st,
     ord_stripe_session_id = Some ''cs_1'', ord_stripe_payment_intent = intent,
     ord_shipping_address = home_address\<rparr>"

text \<open>The shop with Alice's order in a given status; her cart holds one row.\<close>

definition shop_with_order :: "order_status \<Rightarrow> string option \<Rightarrow> database" where
  "shop_with_order st intent = shop\<lparr>orders := [order_o1 st intent]\<rparr>"

definition session_object :: "(string \<times> string) list option \<Rightarrow> stripe_object" where
  "session_object m = \<lparr>obj_id = ''cs_1'', obj_metadata = m, obj_payment_intent = Some ''pi_1''\<rparr>"

definition completed_event :: "(string \<times> string) list option \<Rightarrow> event" where
  "completed_event m = \<lparr>ev_type = ''checkout.session.completed'', ev_object = session_object m\<rparr>"

definition o1_completed_event :: event where
  "o1_completed_event = completed_event (Some [(''order_id'', ''o1''), (''user_id'', ''u1'')])"

definition payment_failed_event :: event where
  "payment_failed_event = \<lparr>ev_type = ''payment_intent.payment_failed'',
     ev_object = \<lparr>obj_id = ''pi_1'', obj_metadata = None, obj_payment_intent = None\<rparr>\<rparr>"

definition refund_event :: event where
  "refund_event = \<lparr>ev_type = ''charge.refunded'',
     ev_object = \<lparr>obj_id = ''ch_1'', obj_metadata = None, obj_payment_intent = Some ''pi_1''\<rparr>\<rparr>"

text \<open>
  A processor whose signature check accepts the header \<open>valid\<close> only, and then parses the
  body into \<open>ev\<close>; the store answers every call.
\<close>

definition stripe_sends :: "event \<Rightarrow> webhook_env" where
  "stripe_sends ev = \<lparr>construct_event =
       (\<lambda>body signature. if signature = ''valid'' then Inr ev else Inl ''signature mismatch''),
     select_fails = False, update_fails = False, delete_fails = False\<rparr>"

definition signed_request :: webhook_request where
  "signed_request = \<lparr>raw_body = ''{}'', stripe_signature = Some ''valid''\<rparr>"

definition forged_request :: webhook_request where
  "forged_request = \<lparr>raw_body = ''{}'', stripe_signature = Some ''forged''\<rparr>"

lemmas sample_defs =
  midnight_oud_def amber_candle_def alice_def alice_cart_row_def shop_def home_address_def
  home_address_input_def nameless_address_input_def two_lines_def unknown_line_def
  checkout_body_of_def new_session_def services_up_def items_insert_down_def order_o1_def
  shop_with_order_def session_object_def completed_event_def o1_completed_event_def
  payment_failed_event_def refund_event_def stripe_sends_def signed_request_def
  forged_request_def

section \<open>The webhook endpoint: auxiliary facts\<close>

text \<open>The handler on a verified request, branch by branch.\<close>

lemma webhook_signed:
  assumes "stripe_signature request = Some signature" and "signature \<noteq> []"
    and "construct_event env (raw_body request) signature = Inr ev"
  shows "webhook_POST env request db = handle_event env ev db"
  using assms by (simp add: webhook_POST_def)

lemma handle_completed_no_order:
  assumes "ev_type ev = ''checkout.session.completed''"
    and "\<not> truthy (metadata_field (ev_object ev) ''order_id'')"
  shows "handle_event env ev db = (json_response Received 200, db, [])"
  using assms by (simp add: handle_event_def)

lemma handle_completed_no_user:
  assumes "ev_type ev = ''checkout.session.completed''"
    and "metadata_field (ev_object ev) ''order_id'' = Some oid" and "oid \<noteq> []"
    and "\<not> truthy (metadata_field (ev_object ev) ''user_id'')"
  shows "handle_event env ev db =
           (json_response Received 200,
            mark_completed env oid (obj_payment_intent (ev_object ev)) db, [Update_order oid])"
  using assms by (cases "metadata_field (ev_object ev) ''user_id''") (simp_all add: handle_event_def Let_def)

lemma handle_completed_both:
  assumes "ev_type ev = ''checkout.session.completed''"
    and "metadata_field (ev_object ev) ''order_id'' = Some oid" and "oid \<noteq> []"
    and "metadata_field (ev_object ev) ''user_id'' = Some uid" and "uid \<noteq> []"
  shows "handle_event env ev db =
           (json_response Received 200,
            delete_cart_items env uid (mark_completed env oid (obj_payment_intent (ev_object ev)) db),
            [Update_order oid, Delete_cart_items uid])"
  using assms by (simp add: handle_event_def)

lemma handle_payment_failed:
  assumes "ev_type ev = ''payment_intent.payment_failed''"
  shows "handle_event env ev db =
     (case select_orders_by_payment_intent env (obj_id (ev_object ev)) db of
        None \<Rightarrow> (json_response Received 200, db,
                   [Select_orders_by_payment_intent (obj_id (ev_object ev))])
      | Some [] \<Rightarrow> (json_response Received 200, db,
                   [Select_orders_by_payment_intent (obj_id (ev_object ev))])
      | Some (oid # _) \<Rightarrow>
          (json_response Received 200, mark_cancelled env oid db,
           [Select_orders_by_payment_intent (obj_id (ev_object ev)), Update_order oid]))"
  using assms by (simp add: handle_event_def Let_def split: option.splits list.splits)

lemma handle_other:
  assumes "ev_type ev \<noteq> ''checkout.session.completed''"
    and "ev_type ev \<noteq> ''payment_intent.payment_failed''"
  shows "handle_event env ev db = (json_response Received 200, db, [])"
  using assms by (simp add: handle_event_def)

text \<open>The effect of each store call on the tables.\<close>

lemma mark_completed_orders:
  "orders (mark_completed env oid intent db) =
     (if update_fails env then orders db
      else map (\<lambda>r. if ord_id r = oid
                       then r\<lparr>ord_status := Completed, ord_stripe_payment_intent := intent\<rparr>
                       else r) (orders db))"
  by (simp add: mark_completed_def)

lemma mark_completed_cart: "cart_items (mark_completed env oid intent db) = cart_items db"
  by (simp add: mark_completed_def)

lemma mark_completed_ids:
  "map ord_id (orders (mark_completed env oid intent db)) = map ord_id (orders db)"
proof -
  have "\<And>r. ord_id (if ord_id r = oid
                       then r\<lparr>ord_status := Completed, ord_stripe_payment_intent := intent\<rparr>
                       else r) = ord_id r"
    by simp
  then show ?thesis
    by (simp add: mark_completed_orders comp_def)
qed

lemma mark_completed_sets:
  assumes "\<not> update_fails env" and "r \<in> set (orders (mark_completed env oid intent db))"
    and "ord_id r = oid"
  shows "ord_status r = Completed \<and> ord_stripe_payment_intent r = intent"
proof -
  from assms(1,2) obtain r0 where "r0 \<in> set (orders db)"
    and r: "r = (if ord_id r0 = oid
                 then r0\<lparr>ord_status := Completed, ord_stripe_payment_intent := intent\<rparr>
                 else r0)"
    by (auto simp: mark_completed_orders)
  show ?thesis
  proof (cases "ord_id r0 = oid")
    case True
    then show ?thesis using r by simp
  next
    case False
    then show ?thesis using r assms(3) by simp
  qed
qed

lemma mark_completed_twice:
  "mark_completed env oid intent (mark_completed env oid intent db) = mark_completed env oid intent db"
proof -
  let ?f = "\<lambda>r. if ord_id r = oid
                then r\<lparr>ord_status := Completed, ord_stripe_payment_intent := intent\<rparr> else r"
  have "\<And>r. ?f (?f r) = ?f r" by simp
  then have "map ?f (map ?f (orders db)) = map ?f (orders db)"
    by (simp add: comp_def)
  then show ?thesis by (simp add: mark_completed_def)
qed

lemma mark_completed_statuses:
  assumes "\<forall>r \<in> set (orders db). ord_id r = oid \<longrightarrow> ord_status r = Completed"
  shows "map ord_status (orders (mark_completed env oid intent db)) = map ord_status (orders db)"
proof -
  have "\<And>r. r \<in> set (orders db) \<Longrightarrow>
          ord_status (if ord_id r = oid
                      then r\<lparr>ord_status := Completed, ord_stripe_payment_intent := intent\<rparr>
                      else r) = ord_status r"
    using assms by simp
  then show ?thesis by (simp add: mark_completed_orders comp_def)
qed

lemma mark_cancelled_orders:
  "orders (mark_cancelled env oid db) =
     (if update_fails env then orders db
      else map (\<lambda>r. if ord_id r = oid then r\<lparr>ord_status := Cancelled\<rparr> else r) (orders db))"
  by (simp add: mark_cancelled_def)

lemma delete_cart_items_twice:
  "delete_cart_items env uid (delete_cart_items env uid db) = delete_cart_items env uid db"
  by (simp add: delete_cart_items_def)

lemma mark_completed_delete_commute:
  "mark_completed env oid intent (delete_cart_items env uid db) =
   delete_cart_items env uid (mark_completed env oid intent db)"
  by (simp add: mark_completed_def delete_cart_items_def)

lemma delete_cart_items_orders: "orders (delete_cart_items env uid db) = orders db"
  by (simp add: delete_cart_items_def)

lemma delete_cart_items_clears:
  assumes "\<not> delete_fails env" and "c \<in> set (cart_items (delete_cart_items env uid db))"
  shows "cart_user_id c \<noteq> Some uid"
  using assms by (simp add: delete_cart_items_def)

lemma selected_for_cancel:
  assumes "select_orders_by_payment_intent env pid db = Some (oid # rest)"
  shows "\<exists>r0 \<in> set (orders db). ord_id r0 = oid \<and> ord_stripe_payment_intent r0 = Some pid"
proof -
  from assms obtain z zs
    where f: "filter (\<lambda>r. ord_stripe_payment_intent r = Some pid) (orders db) = z # zs"
      and z: "oid = ord_id z"
    by (auto simp: select_orders_by_payment_intent_def split: if_splits)
  have "z \<in> set (filter (\<lambda>r. ord_stripe_payment_intent r = Some pid) (orders db))"
    by (simp add: f)
  then show ?thesis using z by auto
qed

text \<open>Rows related pointwise, and the primary key of \<^verbatim>\<open>orders\<close>.\<close>

lemma list_all2_map_self:
  assumes "\<And>x. x \<in> set xs \<Longrightarrow> P x (f x)"
  shows "list_all2 P xs (map f xs)"
  using assms by (simp add: list_all2_map2 list_all2_same)

lemma list_all2_self:
  assumes "\<And>x. P x x"
  shows "list_all2 P xs xs"
  using assms by (simp add: list_all2_same)

lemma primary_key:
  assumes "distinct (map ord_id rows)" and "r \<in> set rows" and "r0 \<in> set rows"
    and "ord_id r = ord_id r0"
  shows "r = r0"
  using assms by (meson distinct_map inj_onD)

lemmas webhook_eval =
  webhook_POST_def handle_event_def metadata_field_def mark_completed_def mark_cancelled_def
  delete_cart_items_def select_orders_by_payment_intent_def json_response_def

section \<open>The webhook endpoint: verified properties\<close>

text \<open>
  C6. A webhook request whose signature header is missing (or empty), or whose signature
  fails verification, is answered with status 400 before any event is interpreted: the
  response is not the acknowledgment, the store is unchanged and the handler has made no
  store call at all, neither read nor write.
\<close>

theorem unverified_webhook_rejected:
  assumes "\<not> truthy (stripe_signature request) \<or>
           (\<exists>signature m. stripe_signature request = Some signature \<and>
                construct_event env (raw_body request) signature = Inl m)"
  shows "status (fst (webhook_POST env request db)) = 400 \<and>
         payload (fst (webhook_POST env request db)) \<noteq> Received \<and>
         fst (snd (webhook_POST env request db)) = db \<and>
         snd (snd (webhook_POST env request db)) = []"
  using assms
  by (auto simp: webhook_POST_def json_response_def split: option.splits sum.splits)

theorem unverified_webhook_rejected_witness:
  "(\<exists>signature m. stripe_signature forged_request = Some signature \<and>
        construct_event (stripe_sends o1_completed_event) (raw_body forged_request) signature = Inl m) \<and>
   status (fst (webhook_POST (stripe_sends o1_completed_event) forged_request
                  (shop_with_order Pending None))) = 400 \<and>
   snd (webhook_POST (stripe_sends o1_completed_event) forged_request (shop_with_order Pending None))
     = (shop_with_order Pending None, [])"
proof -
  have h: "\<exists>signature m. stripe_signature forged_request = Some signature \<and>
        construct_event (stripe_sends o1_completed_event) (raw_body forged_request) signature = Inl m"
    by (simp add: forged_request_def stripe_sends_def)
  then have "\<not> truthy (stripe_signature forged_request) \<or>
        (\<exists>signature m. stripe_signature forged_request = Some signature \<and>
        construct_event (stripe_sends o1_completed_event) (raw_body forged_request) signature = Inl m)"
    by blast
  from unverified_webhook_rejected [OF this, of "shop_with_order Pending None"] h
  show ?thesis by (simp add: prod_eq_iff)
qed

text \<open>
  C7. A validly signed event whose type is neither \<open>checkout.session.completed\<close> nor
  \<open>payment_intent.payment_failed\<close> is accepted and ignored: the handler answers with the
  success acknowledgment, leaves the store unchanged and makes no store call.
\<close>

theorem unhandled_event_acknowledged:
  assumes "stripe_signature request = Some signature" and "signature \<noteq> []"
    and "construct_event env (raw_body request) signature = Inr ev"
    and "ev_type ev \<noteq> ''checkout.session.completed''"
    and "ev_type ev \<noteq> ''payment_intent.payment_failed''"
  shows "webhook_POST env request db = (json_response Received 200, db, [])"
  using assms by (simp add: webhook_POST_def handle_event_def)

theorem unhandled_event_acknowledged_witness:
  "stripe_signature signed_request = Some ''valid'' \<and>
   construct_event (stripe_sends refund_event) (raw_body signed_request) ''valid'' = Inr refund_event \<and>
   ev_type refund_event = ''charge.refunded'' \<and>
   webhook_POST (stripe_sends refund_event) signed_request (shop_with_order Pending None)
     = (json_response Received 200, shop_with_order Pending None, [])"
proof -
  have 1: "stripe_signature signed_request = Some ''valid''"
    by (simp add: signed_request_def)
  have 2: "construct_event (stripe_sends refund_event) (raw_body signed_request) ''valid''
             = Inr refund_event"
    by (simp add: stripe_sends_def)
  have 3: "ev_type refund_event = ''charge.refunded''"
    by (simp add: refund_event_def)
  have 4: "ev_type refund_event \<noteq> ''checkout.session.completed''"
    and 5: "ev_type refund_event \<noteq> ''payment_intent.payment_failed''"
    by (simp_all add: refund_event_def)
  from unhandled_event_acknowledged [OF 1 _ 2 4 5, of "shop_with_order Pending None"] 1 2 3
  show ?thesis by simp
qed

text \<open>
  C9. For a validly signed \<open>checkout.session.completed\<close> event:
  \<^item> when the session metadata carries no \<open>order_id\<close>, the handler makes no store call
    and changes nothing, whatever the metadata says about \<open>user_id\<close>, and still
    acknowledges;
  \<^item> when \<open>order_id\<close> is present and \<open>user_id\<close> is absent, the handler acknowledges,
    its only store call is the order update, the cart rows are untouched, and (when the
    store accepts the update) the orders with that id are \<open>completed\<close> and carry the
    session's payment intent.
\<close>

theorem completed_event_missing_ids:
  assumes "stripe_signature request = Some signature" and "signature \<noteq> []"
    and "construct_event env (raw_body request) signature = Inr ev"
    and "ev_type ev = ''checkout.session.completed''"
  shows "(metadata_field (ev_object ev) ''order_id'' = None \<longrightarrow>
            webhook_POST env request db = (json_response Received 200, db, [])) \<and>
         (\<forall>oid. metadata_field (ev_object ev) ''order_id'' = Some oid \<and> oid \<noteq> [] \<and>
                metadata_field (ev_object ev) ''user_id'' = None \<longrightarrow>
            fst (webhook_POST env request db) = json_response Received 200 \<and>
            snd (snd (webhook_POST env request db)) = [Update_order oid] \<and>
            cart_items (fst (snd (webhook_POST env request db))) = cart_items db \<and>
            map ord_id (orders (fst (snd (webhook_POST env request db)))) = map ord_id (orders db) \<and>
            (\<not> update_fails env \<longrightarrow>
               (\<forall>r \<in> set (orders (fst (snd (webhook_POST env request db)))).
                   ord_id r = oid \<longrightarrow>
                     ord_status r = Completed \<and>
                     ord_stripe_payment_intent r = obj_payment_intent (ev_object ev))))"
proof (intro conjI impI allI)
  assume "metadata_field (ev_object ev) ''order_id'' = None"
  then show "webhook_POST env request db = (json_response Received 200, db, [])"
    using assms by (simp add: webhook_signed handle_completed_no_order)
next
  fix oid
  assume h: "metadata_field (ev_object ev) ''order_id'' = Some oid \<and> oid \<noteq> [] \<and>
             metadata_field (ev_object ev) ''user_id'' = None"
  then have eq: "webhook_POST env request db =
       (json_response Received 200,
        mark_completed env oid (obj_payment_intent (ev_object ev)) db, [Update_order oid])"
    using assms by (simp add: webhook_signed handle_completed_no_user)
  show "fst (webhook_POST env request db) = json_response Received 200"
    and "snd (snd (webhook_POST env request db)) = [Update_order oid]"
    and "cart_items (fst (snd (webhook_POST env request db))) = cart_items db"
    and "map ord_id (orders (fst (snd (webhook_POST env request db)))) = map ord_id (orders db)"
    by (simp_all add: eq mark_completed_cart mark_completed_ids)
  assume ok: "\<not> update_fails env"
  show "\<forall>r \<in> set (orders (fst (snd (webhook_POST env request db)))).
                   ord_id r = oid \<longrightarrow>
                     ord_status r = Completed \<and>
                     ord_stripe_payment_intent r = obj_payment_intent (ev_object ev)"
  proof (intro ballI impI)
    fix r
    assume "r \<in> set (orders (fst (snd (webhook_POST env request db))))" and "ord_id r = oid"
    then show "ord_status r = Completed \<and>
               ord_stripe_payment_intent r = obj_payment_intent (ev_object ev)"
      using mark_completed_sets [OF ok, of r oid "obj_payment_intent (ev_object ev)" db]
      by (simp add: eq)
  qed
qed

theorem completed_event_missing_ids_witness:
  "metadata_field (ev_object (completed_event (Some [(''user_id'', ''u1'')]))) ''order_id'' = None \<and>
   webhook_POST (stripe_sends (completed_event (Some [(''user_id'', ''u1'')]))) signed_request
       (shop_with_order Pending None)
     = (json_response Received 200, shop_with_order Pending None, []) \<and>
   metadata_field (ev_object (completed_event (Some [(''order_id'', ''o1'')]))) ''user_id'' = None \<and>
   snd (snd (webhook_POST (stripe_sends (completed_event (Some [(''order_id'', ''o1'')])))
               signed_request (shop_with_order Pending None))) = [Update_order ''o1''] \<and>
   cart_items (fst (snd (webhook_POST (stripe_sends (completed_event (Some [(''order_id'', ''o1'')])))
               signed_request (shop_with_order Pending None)))) = [alice_cart_row] \<and>
   map ord_status (orders (fst (snd (webhook_POST
               (stripe_sends (completed_event (Some [(''order_id'', ''o1'')])))
               signed_request (shop_with_order Pending None))))) = [Completed]"
proof -
  let ?a = "completed_event (Some [(''user_id'', ''u1'')])"
  let ?b = "completed_event (Some [(''order_id'', ''o1'')])"
  have sig: "stripe_signature signed_request = Some ''valid''" and ne: "''valid'' \<noteq> []"
    by (simp_all add: signed_request_def)
  have a: "construct_event (stripe_sends ?a) (raw_body signed_request) ''valid'' = Inr ?a"
    and b: "construct_event (stripe_sends ?b) (raw_body signed_request) ''valid'' = Inr ?b"
    by (simp_all add: stripe_sends_def)
  have ta: "ev_type ?a = ''checkout.session.completed''"
    and tb: "ev_type ?b = ''checkout.session.completed''"
    by (simp_all add: completed_event_def)
  have ma: "metadata_field (ev_object ?a) ''order_id'' = None"
    and mb: "metadata_field (ev_object ?b) ''order_id'' = Some ''o1''"
    and ub: "metadata_field (ev_object ?b) ''user_id'' = None"
    by (simp_all add: metadata_field_def completed_event_def session_object_def)
  have 1: "webhook_POST (stripe_sends ?a) signed_request (shop_with_order Pending None)
             = (json_response Received 200, shop_with_order Pending None, [])"
    using completed_event_missing_ids [OF sig ne a ta, of "shop_with_order Pending None"] ma
    by simp
  have 2: "snd (snd (webhook_POST (stripe_sends ?b) signed_request (shop_with_order Pending None)))
             = [Update_order ''o1'']"
    and 3: "cart_items (fst (snd (webhook_POST (stripe_sends ?b) signed_request
               (shop_with_order Pending None)))) = cart_items (shop_with_order Pending None)"
    using completed_event_missing_ids [OF sig ne b tb, of "shop_with_order Pending None"] mb ub
    by simp_all
  have 4: "cart_items (shop_with_order Pending None) = [alice_cart_row]"
    by (simp add: shop_with_order_def shop_def)
  have 5: "map ord_status (orders (fst (snd (webhook_POST (stripe_sends ?b) signed_request
               (shop_with_order Pending None))))) = [Completed]"
    by (simp add: webhook_eval sample_defs)
  from 1 2 3 4 5 ma ub show ?thesis by simp
qed

text \<open>
  C1, as stated, does not hold. The order \<open>o1\<close> is already \<open>completed\<close> and its owner has
  put a row into her cart since. A second delivery of the same event does not detect the
  terminal state: the handler issues the order update and the cart delete again, and the
  cart row is gone.
\<close>

theorem completed_redelivery_counterexample:
  "map ord_status (orders (shop_with_order Completed (Some ''pi_1''))) = [Completed] \<and>
   cart_items (shop_with_order Completed (Some ''pi_1'')) = [alice_cart_row] \<and>
   snd (snd (webhook_POST (stripe_sends o1_completed_event) signed_request
               (shop_with_order Completed (Some ''pi_1''))))
     = [Update_order ''o1'', Delete_cart_items ''u1''] \<and>
   cart_items (fst (snd (webhook_POST (stripe_sends o1_completed_event) signed_request
               (shop_with_order Completed (Some ''pi_1''))))) = []"
  by (simp add: webhook_POST_def handle_event_def metadata_field_def mark_completed_def
      delete_cart_items_def sample_defs)

text \<open>
  C1, amended. The handler never reads the order's status, so there is no short-circuit.
  For an order that is already \<open>completed\<close>, a further delivery of a validly signed
  \<open>checkout.session.completed\<close> event naming it (with the \<open>order_id\<close> and \<open>user_id\<close>
  the checkout endpoint attaches) is acknowledged without an error and changes no order's
  status; the handler issues the order update and the cart delete again, so the cart rows the
  user owns at that moment are deleted; and delivering the event once more to the store that
  results changes nothing further.
\<close>

theorem completed_redelivery:
  assumes "stripe_signature request = Some signature" and "signature \<noteq> []"
    and "construct_event env (raw_body request) signature = Inr ev"
    and "ev_type ev = ''checkout.session.completed''"
    and "metadata_field (ev_object ev) ''order_id'' = Some oid" and "oid \<noteq> []"
    and "metadata_field (ev_object ev) ''user_id'' = Some uid" and "uid \<noteq> []"
    and "\<forall>r \<in> set (orders db). ord_id r = oid \<longrightarrow> ord_status r = Completed"
  shows "fst (webhook_POST env request db) = json_response Received 200 \<and>
         snd (snd (webhook_POST env request db)) = [Update_order oid, Delete_cart_items uid] \<and>
         map ord_status (orders (fst (snd (webhook_POST env request db)))) =
           map ord_status (orders db) \<and>
         (\<not> delete_fails env \<longrightarrow>
            (\<forall>c \<in> set (cart_items (fst (snd (webhook_POST env request db)))).
                cart_user_id c \<noteq> Some uid)) \<and>
         webhook_POST env request (fst (snd (webhook_POST env request db))) =
           webhook_POST env request db"
proof -
  let ?intent = "obj_payment_intent (ev_object ev)"
  have eq: "\<And>d. webhook_POST env request d =
       (json_response Received 200,
        delete_cart_items env uid (mark_completed env oid ?intent d),
        [Update_order oid, Delete_cart_items uid])"
    using assms(1-8) by (simp add: webhook_signed handle_completed_both)
  have again: "delete_cart_items env uid (mark_completed env oid ?intent
                 (delete_cart_items env uid (mark_completed env oid ?intent db))) =
               delete_cart_items env uid (mark_completed env oid ?intent db)"
    by (simp add: mark_completed_delete_commute delete_cart_items_twice mark_completed_twice)
  have cleared: "\<not> delete_fails env \<longrightarrow>
            (\<forall>c \<in> set (cart_items (delete_cart_items env uid (mark_completed env oid ?intent db))).
                cart_user_id c \<noteq> Some uid)"
    using delete_cart_items_clears by blast
  show ?thesis
    using again cleared mark_completed_statuses [OF assms(9), of env ?intent]
    by (simp add: eq delete_cart_items_orders)
qed

theorem completed_redelivery_witness:
  "map ord_status (orders (shop_with_order Completed (Some ''pi_1''))) = [Completed] \<and>
   fst (webhook_POST (stripe_sends o1_completed_event) signed_request
          (shop_with_order Completed (Some ''pi_1''))) = json_response Received 200 \<and>
   map ord_status (orders (fst (snd (webhook_POST (stripe_sends o1_completed_event) signed_request
          (shop_with_order Completed (Some ''pi_1'')))))) = [Completed] \<and>
   webhook_POST (stripe_sends o1_completed_event) signed_request
     (fst (snd (webhook_POST (stripe_sends o1_completed_event) signed_request
                  (shop_with_order Completed (Some ''pi_1'')))))
   = webhook_POST (stripe_sends o1_completed_event) signed_request
       (shop_with_order Completed (Some ''pi_1''))"
proof -
  let ?db = "shop_with_order Completed (Some ''pi_1'')"
  have sig: "stripe_signature signed_request = Some ''valid''" and ne: "''valid'' \<noteq> []"
    by (simp_all add: signed_request_def)
  have ev: "construct_event (stripe_sends o1_completed_event) (raw_body signed_request) ''valid''
              = Inr o1_completed_event"
    by (simp add: stripe_sends_def)
  have ty: "ev_type o1_completed_event = ''checkout.session.completed''"
    by (simp add: o1_completed_event_def completed_event_def)
  have oid: "metadata_field (ev_object o1_completed_event) ''order_id'' = Some ''o1''"
    and uid: "metadata_field (ev_object o1_completed_event) ''user_id'' = Some ''u1''"
    by (simp_all add: metadata_field_def o1_completed_event_def completed_event_def
        session_object_def)
  have st: "map ord_status (orders ?db) = [Completed]"
    by (simp add: shop_with_order_def shop_def order_o1_def)
  have all_completed: "\<forall>r \<in> set (orders ?db). ord_id r = ''o1'' \<longrightarrow> ord_status r = Completed"
    by (simp add: shop_with_order_def shop_def order_o1_def)
  from completed_redelivery [OF sig ne ev ty oid _ uid _ all_completed] st
  show ?thesis by simp
qed

text \<open>
  C2, as stated, does not hold. A \<open>payment_intent.payment_failed\<close> event for the payment
  intent recorded on a \<open>completed\<close> order makes it \<open>cancelled\<close>, and a
  \<open>checkout.session.completed\<close> event naming a \<open>cancelled\<close> order makes it \<open>completed\<close>.
\<close>

theorem terminal_status_changes_counterexample:
  "map ord_status (orders (shop_with_order Completed (Some ''pi_1''))) = [Completed] \<and>
   map ord_status (orders (fst (snd (webhook_POST (stripe_sends payment_failed_event)
       signed_request (shop_with_order Completed (Some ''pi_1'')))))) = [Cancelled] \<and>
   map ord_status (orders (shop_with_order Cancelled (Some ''pi_1''))) = [Cancelled] \<and>
   map ord_status (orders (fst (snd (webhook_POST (stripe_sends o1_completed_event)
       signed_request (shop_with_order Cancelled (Some ''pi_1'')))))) = [Completed]"
  by (simp add: webhook_eval sample_defs)

text \<open>
  C2, amended. The webhook writes the status without looking at the current one. Under a
  verified event, and with \<open>id\<close> the primary key of \<open>orders\<close>, every order row is afterwards
  \<^item> unchanged, or
  \<^item> set to \<open>completed\<close> with the session's payment intent, which happens only under a
    \<open>checkout.session.completed\<close> event whose metadata names the order's id, or
  \<^item> set to \<open>cancelled\<close>, which happens only under a \<open>payment_intent.payment_failed\<close>
    event whose payment intent is the one recorded on the order;
  whatever the status was before. No row is added or removed, and no status becomes
  \<open>pending\<close> or \<open>processing\<close>.
\<close>

theorem webhook_status_steps:
  assumes "stripe_signature request = Some signature" and "signature \<noteq> []"
    and "construct_event env (raw_body request) signature = Inr ev"
    and "distinct (map ord_id (orders db))"
  shows "list_all2
          (\<lambda>r r'. r' = r \<or>
             (ev_type ev = ''checkout.session.completed'' \<and>
              metadata_field (ev_object ev) ''order_id'' = Some (ord_id r) \<and>
              r' = r\<lparr>ord_status := Completed,
                      ord_stripe_payment_intent := obj_payment_intent (ev_object ev)\<rparr>) \<or>
             (ev_type ev = ''payment_intent.payment_failed'' \<and>
              ord_stripe_payment_intent r = Some (obj_id (ev_object ev)) \<and>
              r' = r\<lparr>ord_status := Cancelled\<rparr>))
          (orders db) (orders (fst (snd (webhook_POST env request db))))"
    (is "list_all2 ?step _ _")
proof -
  have w: "webhook_POST env request db = handle_event env ev db"
    using assms(1-3) by (rule webhook_signed)
  have same: "list_all2 ?step (orders db) (orders db)"
    by (rule list_all2_self) simp
  consider (completed) "ev_type ev = ''checkout.session.completed''"
    | (failed) "ev_type ev = ''payment_intent.payment_failed''"
    | (other) "ev_type ev \<noteq> ''checkout.session.completed''"
        "ev_type ev \<noteq> ''payment_intent.payment_failed''"
    by blast
  then show ?thesis
  proof cases
    case completed
    show ?thesis
    proof (cases "truthy (metadata_field (ev_object ev) ''order_id'')")
      case False
      then show ?thesis using same completed by (simp add: w handle_completed_no_order)
    next
      case True
      then obtain oid where oid: "metadata_field (ev_object ev) ''order_id'' = Some oid"
        and ne: "oid \<noteq> []"
        by (cases "metadata_field (ev_object ev) ''order_id''") auto
      let ?intent = "obj_payment_intent (ev_object ev)"
      have o: "orders (fst (snd (handle_event env ev db))) =
                 orders (mark_completed env oid ?intent db)"
      proof (cases "truthy (metadata_field (ev_object ev) ''user_id'')")
        case False
        then show ?thesis using completed oid ne by (simp add: handle_completed_no_user)
      next
        case True
        then obtain uid where "metadata_field (ev_object ev) ''user_id'' = Some uid" "uid \<noteq> []"
          by (cases "metadata_field (ev_object ev) ''user_id''") auto
        then show ?thesis using completed oid ne
          by (simp add: handle_completed_both delete_cart_items_orders)
      qed
      show ?thesis
      proof (cases "update_fails env")
        case True
        then show ?thesis using same by (simp add: w o mark_completed_orders)
      next
        case False
        have "list_all2 ?step (orders db)
                (map (\<lambda>r. if ord_id r = oid
                       then r\<lparr>ord_status := Completed, ord_stripe_payment_intent := ?intent\<rparr>
                       else r) (orders db))"
          by (rule list_all2_map_self) (simp add: completed oid)
        then show ?thesis using False by (simp add: w o mark_completed_orders)
      qed
    qed
  next
    case failed
    let ?pid = "obj_id (ev_object ev)"
    show ?thesis
    proof (cases "select_orders_by_payment_intent env ?pid db")
      case None
      then show ?thesis using same failed by (simp add: w handle_payment_failed)
    next
      case (Some ids)
      show ?thesis
      proof (cases ids)
        case Nil
        then show ?thesis using same failed Some by (simp add: w handle_payment_failed)
      next
        case (Cons oid rest)
        then have sel: "select_orders_by_payment_intent env ?pid db = Some (oid # rest)"
          using Some by simp
        have o: "orders (fst (snd (handle_event env ev db))) = orders (mark_cancelled env oid db)"
          using failed sel by (simp add: handle_payment_failed)
        from selected_for_cancel [OF sel] obtain r0 where r0: "r0 \<in> set (orders db)"
          "ord_id r0 = oid" "ord_stripe_payment_intent r0 = Some ?pid"
          by blast
        have hit: "\<And>r. r \<in> set (orders db) \<Longrightarrow> ord_id r = oid \<Longrightarrow>
                      ord_stripe_payment_intent r = Some ?pid"
        proof -
          fix r
          assume "r \<in> set (orders db)" and "ord_id r = oid"
          then have "r = r0"
            using primary_key [OF assms(4) _ r0(1), of r] r0(2) by simp
          then show "ord_stripe_payment_intent r = Some ?pid"
            using r0(3) by simp
        qed
        show ?thesis
        proof (cases "update_fails env")
          case True
          then show ?thesis using same by (simp add: w o mark_cancelled_orders)
        next
          case False
          have "list_all2 ?step (orders db)
                  (map (\<lambda>r. if ord_id r = oid then r\<lparr>ord_status := Cancelled\<rparr> else r)
                       (orders db))"
            by (rule list_all2_map_self) (simp add: failed hit)
          then show ?thesis using False by (simp add: w o mark_cancelled_orders)
        qed
      qed
    qed
  next
    case other
    then show ?thesis using same by (simp add: w handle_other)
  qed
qed

theorem webhook_status_steps_witness:
  "distinct (map ord_id (orders (shop_with_order Completed (Some ''pi_1'')))) \<and>
   list_all2 (\<lambda>r r'. r' = r\<lparr>ord_status := Cancelled\<rparr>)
     (orders (shop_with_order Completed (Some ''pi_1'')))
     (orders (fst (snd (webhook_POST (stripe_sends payment_failed_event) signed_request
                          (shop_with_order Completed (Some ''pi_1''))))))"
proof -
  let ?db = "shop_with_order Completed (Some ''pi_1'')"
  have sig: "stripe_signature signed_request = Some ''valid''" and ne: "''valid'' \<noteq> []"
    by (simp_all add: signed_request_def)
  have ev: "construct_event (stripe_sends payment_failed_event) (raw_body signed_request) ''valid''
              = Inr payment_failed_event"
    by (simp add: stripe_sends_def)
  have pk: "distinct (map ord_id (orders ?db))"
    by (simp add: shop_with_order_def shop_def)
  have changed: "orders (fst (snd (webhook_POST (stripe_sends payment_failed_event) signed_request
                   ?db))) \<noteq> orders ?db"
    by (simp add: webhook_eval sample_defs)
  have ty: "ev_type payment_failed_event \<noteq> ''checkout.session.completed''"
    by (simp add: payment_failed_event_def)
  from webhook_status_steps [OF sig ne ev pk] changed ty pk
  show ?thesis
    by (auto simp: list_all2_Cons1 shop_with_order_def shop_def)
qed

section \<open>The checkout endpoint: auxiliary facts\<close>

text \<open>Resolving products among the selected rows.\<close>

lemma find_product_selected:
  "find_product (filter (\<lambda>p. prod_id p \<in> set ids) ps) pid =
     (if pid \<in> set ids then find_product ps pid else None)"
  by (induction ps) (auto simp: find_product_def)

lemma find_product_None: "find_product ps pid = None \<longleftrightarrow> pid \<notin> prod_id ` set ps"
  by (auto simp: find_product_def find_None_iff)

lemma line_items_Inl:
  assumes "line_items ps items = Inl e"
  shows "\<exists>i \<in> set items. e = Product_not_found (item_product_id i) \<and>
            find_product ps (item_product_id i) = None"
  using assms by (induction items) (auto split: option.splits sum.splits)

lemma line_items_Inr:
  assumes "line_items ps items = Inr ls" and "i \<in> set items"
  shows "find_product ps (item_product_id i) \<noteq> None"
  using assms by (induction items arbitrary: ls) (auto split: option.splits sum.splits)

lemma line_items_first_unknown:
  assumes "List.find (\<lambda>i. find_product ps (item_product_id i) = None) items = Some i"
  shows "line_items ps items = Inl (Product_not_found (item_product_id i))"
  using assms by (induction items) (auto split: option.splits sum.splits if_splits)

lemma total_amount_resolved:
  assumes "\<forall>i \<in> set items. find_product ps (item_product_id i) \<noteq> None"
  shows "\<exists>t. total_amount ps acc items = Inr t"
  using assms by (induction items arbitrary: acc) (auto split: option.splits)

lemma order_items_for_resolved:
  assumes "\<forall>i \<in> set items. find_product ps (item_product_id i) \<noteq> None"
  shows "\<exists>rows. order_items_for oid ps items = Inr rows"
  using assms by (induction items) (auto split: option.splits sum.splits)

lemma order_items_for_rows:
  assumes "order_items_for oid ps items = Inr rows"
  shows "list_all2 (\<lambda>i r. oi_order_id r = oid \<and> oi_product_id r = item_product_id i \<and>
                      oi_quantity r = item_quantity i \<and>
                      (\<exists>p. find_product ps (item_product_id i) = Some p \<and>
                           oi_product_name r = prod_name p \<and>
                           oi_product_price r = prod_price p)) items rows"
  using assms
  by (induction items arbitrary: rows) (auto split: option.splits sum.splits)

lemma total_amount_rows:
  assumes "order_items_for oid ps items = Inr rows"
  shows "total_amount ps acc items =
           Inr (acc + sum_list (map (\<lambda>r. oi_product_price r * oi_quantity r) rows))"
  using assms
  by (induction items arbitrary: rows acc) (auto split: option.splits sum.splits)

lemma total_amount_after_line_items:
  assumes "line_items ps items = Inr lis"
  shows "\<exists>t. total_amount ps acc items = Inr t"
  using line_items_Inr [OF assms] by (intro total_amount_resolved) blast

lemma order_items_for_after_line_items:
  assumes "line_items ps items = Inr lis"
  shows "\<exists>rows. order_items_for oid ps items = Inr rows"
  using line_items_Inr [OF assms] by (intro order_items_for_resolved) blast

lemma first_unknown_selected:
  assumes "ps = filter (\<lambda>p. prod_id p \<in> set (map item_product_id items)) (products db)"
  shows "List.find (\<lambda>i. find_product ps (item_product_id i) = None) items =
         List.find (\<lambda>i. item_product_id i \<notin> prod_id ` set (products db)) items"
proof (rule find_cong)
  fix i
  assume "i \<in> set items"
  then have "find_product ps (item_product_id i) = find_product (products db) (item_product_id i)"
    unfolding assms find_product_selected by simp
  then show "(find_product ps (item_product_id i) = None) =
             (item_product_id i \<notin> prod_id ` set (products db))"
    by (simp only: find_product_None)
qed simp

lemma find_unknown_exists:
  assumes "\<exists>i \<in> set items. P i"
  shows "\<exists>i. List.find P items = Some i"
  using assms by (cases "List.find P items") (auto simp: find_None_iff)

lemma catalog_price:
  assumes "ps = filter (\<lambda>p. prod_id p \<in> set (map item_product_id items)) (products db)"
    and "i \<in> set items" and "find_product ps (item_product_id i) = Some p"
  shows "find_product (products db) (item_product_id i) = Some p"
  using assms(2,3) unfolding assms(1) find_product_selected by simp

text \<open>The store calls and the validation, result by result.\<close>

lemma status_caught: "status (caught e) = 500" and payload_caught: "payload (caught e) = Checkout_failed e"
  by (simp_all add: caught_def json_response_def)

lemma status_json_response: "status (json_response p s) = s"
  and payload_json_response: "payload (json_response p s) = p"
  by (simp_all add: json_response_def)

lemma parse_shipping_address_Inl:
  assumes "parse_shipping_address inp = Inl e"
  shows "\<exists>issues. e = Zod_error issues"
  using assms by (auto simp: parse_shipping_address_def split: option.splits if_splits)

lemma select_products_Inl:
  assumes "select_products env ids db = Inl e"
  shows "\<exists>d. e = Postgrest_error d"
  using assms by (auto simp: select_products_def split: option.splits)

lemma select_products_Inl_error:
  assumes "select_products env ids db = Inl e"
  shows "products_error env \<noteq> None"
  using assms by (auto simp: select_products_def split: option.splits)

lemma select_products_Inr:
  assumes "select_products env ids db = Inr ps"
  shows "ps = filter (\<lambda>p. prod_id p \<in> set ids) (products db)" and "products_error env = None"
  using assms by (auto simp: select_products_def split: option.splits)

lemma insert_order_Inr:
  assumes "insert_order env u t addr db = Inr (ord, db1)"
  shows "ord_id ord = generated_order_id env" and "ord_status ord = Pending"
    and "ord_total_amount ord = t" and "ord_user_id ord = Some (user_id u)"
    and "ord_shipping_address ord = addr"
    and "db1 = db\<lparr>orders := orders db @ [ord]\<rparr>"
    and "generated_order_id env \<notin> set (map ord_id (orders db))"
  using assms
  by (auto simp: insert_order_def Let_def split: option.splits if_splits)

lemma insert_order_Inl:
  assumes "insert_order env u t addr db = Inl e"
  shows "\<exists>d. e = Postgrest_error d"
  using assms
  by (auto simp: insert_order_def Let_def split: option.splits if_splits)

lemma insert_order_items_Inr:
  assumes "insert_order_items env rows db1 = Inr db2"
  shows "db2 = db1\<lparr>order_items := order_items db1 @ rows\<rparr>"
    and "\<forall>r \<in> set rows. 0 < oi_quantity r"
  using assms
  by (auto simp: insert_order_items_def list_ex_iff split: option.splits if_splits)

lemma insert_order_items_Inl:
  assumes "insert_order_items env rows db1 = Inl e"
  shows "\<exists>d. e = Postgrest_error d"
  using assms
  by (auto simp: insert_order_items_def split: option.splits if_splits)

lemma rows_written:
  assumes "insert_order env u t addr db = Inr (ord, db1)"
    and "insert_order_items env rows db1 = Inr db2"
  shows "orders db2 = orders db @ [ord]" and "order_items db2 = order_items db @ rows"
    and "products db2 = products db" and "cart_items db2 = cart_items db"
  using insert_order_Inr(6) [OF assms(1)] insert_order_items_Inr(1) [OF assms(2)]
  by simp_all

lemma update_session_id_tables:
  "order_items (update_session_id env oid sid db) = order_items db"
  "products (update_session_id env oid sid db) = products db"
  "cart_items (update_session_id env oid sid db) = cart_items db"
  by (simp_all add: update_session_id_def)

lemma update_session_id_fresh:
  assumes "orders db = rows @ [ord]" and "ord_id ord \<notin> set (map ord_id rows)"
  shows "\<exists>ord'. orders (update_session_id env (ord_id ord) sid db) = rows @ [ord'] \<and>
           ord_id ord' = ord_id ord \<and> ord_status ord' = ord_status ord \<and>
           ord_total_amount ord' = ord_total_amount ord"
proof (cases "session_update_fails env")
  case True
  then show ?thesis using assms(1) by (simp add: update_session_id_def)
next
  case False
  let ?f = "\<lambda>r. if ord_id r = ord_id ord then r\<lparr>ord_stripe_session_id := Some sid\<rparr> else r"
  have "map ?f rows = rows"
  proof (rule map_idI)
    fix r
    assume "r \<in> set rows"
    then have "ord_id r \<in> set (map ord_id rows)" by simp
    with assms(2) have "ord_id r \<noteq> ord_id ord" by metis
    then show "?f r = r" by simp
  qed
  then have "orders (update_session_id env (ord_id ord) sid db) =
               rows @ [ord\<lparr>ord_stripe_session_id := Some sid\<rparr>]"
    using False assms(1) by (simp add: update_session_id_def)
  then show ?thesis by simp
qed

text \<open>The handler, branch by branch, and the case analysis that the branches give.\<close>

lemma checkout_unauthorized:
  assumes "auth_error env \<or> auth_user env = None"
  shows "checkout_POST env request db = (json_response Unauthorized 401, db, [])"
  using assms by (auto simp: checkout_POST_def)

lemma checkout_no_body:
  assumes "\<not> auth_error env" and "auth_user env = Some u"
  shows "checkout_POST env None db = (caught Body_error, db, [])"
  using assms by (simp add: checkout_POST_def)

lemma checkout_bad_address:
  assumes "\<not> auth_error env" and "auth_user env = Some u"
    and "parse_shipping_address (body_shipping_address body) = Inl e"
  shows "checkout_POST env (Some body) db = (caught e, db, [])"
  using assms by (simp add: checkout_POST_def)

lemma checkout_empty_cart:
  assumes "\<not> auth_error env" and "auth_user env = Some u"
    and "parse_shipping_address (body_shipping_address body) = Inr addr"
    and "body_cart_items body = None \<or> body_cart_items body = Some []"
  shows "checkout_POST env (Some body) db = (json_response Cart_is_empty 400, db, [])"
  using assms by (auto simp: checkout_POST_def)

lemma checkout_priced:
  assumes "\<not> auth_error env" and "auth_user env = Some u"
    and "parse_shipping_address (body_shipping_address body) = Inr addr"
    and "body_cart_items body = Some items" and "items \<noteq> []"
  shows "checkout_POST env (Some body) db =
     (case select_products env (map item_product_id items) db of
        Inl e \<Rightarrow> (caught e, db, [Select_products (map item_product_id items)])
      | Inr ps \<Rightarrow>
          (case line_items ps items of
             Inl e \<Rightarrow> (caught e, db, [Select_products (map item_product_id items)])
           | Inr lis \<Rightarrow>
               (case total_amount ps 0 items of
                  Inl e \<Rightarrow> (caught e, db, [Select_products (map item_product_id items)])
                | Inr totalAmount \<Rightarrow>
                    create_order env u addr items ps lis totalAmount db
                      [Select_products (map item_product_id items)])))"
  using assms by (cases items) (simp_all add: checkout_POST_def Let_def split: sum.splits)

lemma create_order_cases:
  assumes "create_order env u addr items ps lis t db log = (resp, db', log')"
  obtains
    (order_failed) e where "insert_order env u t addr db = Inl e"
      "resp = caught e" "db' = db" "log' = log @ [Insert_order]"
  | (type_error) ord db1 e where "insert_order env u t addr db = Inr (ord, db1)"
      "order_items_for (ord_id ord) ps items = Inl e"
      "resp = caught e" "db' = db1" "log' = log @ [Insert_order]"
  | (items_failed) ord db1 rows e where "insert_order env u t addr db = Inr (ord, db1)"
      "order_items_for (ord_id ord) ps items = Inr rows"
      "insert_order_items env rows db1 = Inl e"
      "resp = caught e" "db' = db1" "log' = log @ [Insert_order, Insert_order_items]"
  | (stripe_failed) ord db1 rows db2 m where "insert_order env u t addr db = Inr (ord, db1)"
      "order_items_for (ord_id ord) ps items = Inr rows"
      "insert_order_items env rows db1 = Inr db2"
      "resp = caught (Stripe_error m)" "db' = db2"
      "log' = log @ [Insert_order, Insert_order_items]"
  | (created) ord db1 rows db2 and session :: stripe_session
      where "insert_order env u t addr db = Inr (ord, db1)"
      "order_items_for (ord_id ord) ps items = Inr rows"
      "insert_order_items env rows db1 = Inr db2"
      "resp = json_response (Checkout_session (session_id session) (session_url session)) 200"
      "db' = update_session_id env (ord_id ord) (session_id session) db2"
      "log' = log @ [Insert_order, Insert_order_items, Update_order (ord_id ord)]"
proof (cases "insert_order env u t addr db")
  case (Inl e)
  then have "create_order env u addr items ps lis t db log = (caught e, db, log @ [Insert_order])"
    by (simp add: create_order_def)
  with assms have "resp = caught e" "db' = db" "log' = log @ [Insert_order]"
    by simp_all
  with Inl show ?thesis by (rule order_failed)
next
  case (Inr p)
  obtain ord db1 where p: "p = (ord, db1)" by (cases p)
  note ins = Inr [unfolded p]
  show ?thesis
  proof (cases "order_items_for (ord_id ord) ps items")
    case (Inl e)
    with ins have "create_order env u addr items ps lis t db log =
                     (caught e, db1, log @ [Insert_order])"
      by (simp add: create_order_def)
    with assms have "resp = caught e" "db' = db1" "log' = log @ [Insert_order]"
      by simp_all
    with ins Inl show ?thesis by (rule type_error)
  next
    case rows: (Inr rows)
    show ?thesis
    proof (cases "insert_order_items env rows db1")
      case (Inl e)
      with ins rows have "create_order env u addr items ps lis t db log =
                            (caught e, db1, log @ [Insert_order, Insert_order_items])"
        by (simp add: create_order_def)
      with assms have "resp = caught e" "db' = db1"
        "log' = log @ [Insert_order, Insert_order_items]"
        by simp_all
      with ins rows Inl show ?thesis by (rule items_failed)
    next
      case db2: (Inr db2)
      show ?thesis
      proof (cases "stripe_create env
                      \<lparr>req_line_items = lis, req_customer_email = user_email u,
                       req_metadata = [(''order_id'', ord_id ord), (''user_id'', user_id u)]\<rparr>")
        case (Inl m)
        with ins rows db2 have "create_order env u addr items ps lis t db log =
            (caught (Stripe_error m), db2, log @ [Insert_order, Insert_order_items])"
          by (simp add: create_order_def)
        with assms have "resp = caught (Stripe_error m)" "db' = db2"
          "log' = log @ [Insert_order, Insert_order_items]"
          by simp_all
        with ins rows db2 show ?thesis by (rule stripe_failed)
      next
        case (Inr session)
        with ins rows db2 have "create_order env u addr items ps lis t db log =
            (json_response (Checkout_session (session_id session) (session_url session)) 200,
             update_session_id env (ord_id ord) (session_id session) db2,
             log @ [Insert_order, Insert_order_items, Update_order (ord_id ord)])"
          by (simp add: create_order_def)
        with assms have
          "resp = json_response (Checkout_session (session_id session) (session_url session)) 200"
          "db' = update_session_id env (ord_id ord) (session_id session) db2"
          "log' = log @ [Insert_order, Insert_order_items, Update_order (ord_id ord)]"
          by simp_all
        with ins rows db2 show ?thesis by (rule created)
      qed
    qed
  qed
qed

lemma checkout_cases:
  assumes "checkout_POST env request db = (resp, db', log)"
  obtains
    (unauthorized) "auth_error env \<or> auth_user env = None"
      "resp = json_response Unauthorized 401" "db' = db" "log = []"
  | (no_body) u where "\<not> auth_error env" "auth_user env = Some u" "request = None"
      "resp = caught Body_error" "db' = db" "log = []"
  | (bad_address) u body e where "\<not> auth_error env" "auth_user env = Some u"
      "request = Some body"
      "parse_shipping_address (body_shipping_address body) = Inl e"
      "resp = caught e" "db' = db" "log = []"
  | (empty_cart) u body addr where "\<not> auth_error env" "auth_user env = Some u"
      "request = Some body"
      "parse_shipping_address (body_shipping_address body) = Inr addr"
      "body_cart_items body = None \<or> body_cart_items body = Some []"
      "resp = json_response Cart_is_empty 400" "db' = db" "log = []"
  | (select_failed) u body addr items e where "\<not> auth_error env" "auth_user env = Some u"
      "request = Some body"
      "parse_shipping_address (body_shipping_address body) = Inr addr"
      "body_cart_items body = Some items" "items \<noteq> []"
      "select_products env (map item_product_id items) db = Inl e"
      "resp = caught e" "db' = db" "log = [Select_products (map item_product_id items)]"
  | (unknown_product) u body addr items ps e where "\<not> auth_error env" "auth_user env = Some u"
      "request = Some body"
      "parse_shipping_address (body_shipping_address body) = Inr addr"
      "body_cart_items body = Some items" "items \<noteq> []"
      "select_products env (map item_product_id items) db = Inr ps"
      "line_items ps items = Inl e"
      "resp = caught e" "db' = db" "log = [Select_products (map item_product_id items)]"
  | (ordering) u body addr items ps lis t where
      "\<not> auth_error env" "auth_user env = Some u" "request = Some body"
      "parse_shipping_address (body_shipping_address body) = Inr addr"
      "body_cart_items body = Some items" "items \<noteq> []"
      "select_products env (map item_product_id items) db = Inr ps"
      "line_items ps items = Inr lis" "total_amount ps 0 items = Inr t"
      "create_order env u addr items ps lis t db [Select_products (map item_product_id items)]
         = (resp, db', log)"
proof (cases "auth_error env \<or> auth_user env = None")
  case True
  from checkout_unauthorized [OF True, of request db] assms
  have "resp = json_response Unauthorized 401" "db' = db" "log = []"
    by simp_all
  with True show ?thesis by (rule unauthorized)
next
  case False
  then obtain u where auth: "\<not> auth_error env" "auth_user env = Some u" by auto
  show ?thesis
  proof (cases request)
    case None
    from checkout_no_body [OF auth, of db] assms None
    have "resp = caught Body_error" "db' = db" "log = []"
      by simp_all
    with auth None show ?thesis by (rule no_body)
  next
    case (Some body)
    show ?thesis
    proof (cases "parse_shipping_address (body_shipping_address body)")
      case (Inl e)
      from checkout_bad_address [OF auth Inl, of db] assms Some
      have "resp = caught e" "db' = db" "log = []"
        by simp_all
      with auth Some Inl show ?thesis by (rule bad_address)
    next
      case addr: (Inr addr)
      show ?thesis
      proof (cases "body_cart_items body = None \<or> body_cart_items body = Some []")
        case True
        from checkout_empty_cart [OF auth addr True, of db] assms Some
        have "resp = json_response Cart_is_empty 400" "db' = db" "log = []"
          by simp_all
        with auth Some addr True show ?thesis by (rule empty_cart)
      next
        case False
        then obtain items where items: "body_cart_items body = Some items" "items \<noteq> []"
          by auto
        let ?log = "[Select_products (map item_product_id items)]"
        note priced = checkout_priced [OF auth addr items, of db]
        show ?thesis
        proof (cases "select_products env (map item_product_id items) db")
          case (Inl e)
          with priced assms Some
          have "resp = caught e" "db' = db" "log = ?log"
            by simp_all
          with auth Some addr items Inl show ?thesis by (rule select_failed)
        next
          case ps: (Inr ps)
          show ?thesis
          proof (cases "line_items ps items")
            case (Inl e)
            with priced assms Some ps
            have "resp = caught e" "db' = db" "log = ?log"
              by simp_all
            with auth Some addr items ps Inl show ?thesis by (rule unknown_product)
          next
            case lis: (Inr lis)
            from total_amount_after_line_items [OF lis, of 0]
            obtain t where t: "total_amount ps 0 items = Inr t" by blast
            with priced assms Some ps lis
            have "create_order env u addr items ps lis t db ?log = (resp, db', log)"
              by simp
            with auth Some addr items ps lis t
            show ?thesis by (rule ordering)
          qed
        qed
      qed
    qed
  qed
qed

lemma checkout_success:
  assumes "checkout_POST env request db = (resp, db', log)" and "status resp = 200"
  obtains (created) u body addr items ps t ord db1 rows db2 and session :: stripe_session where
    "request = Some body" "body_cart_items body = Some items" "items \<noteq> []"
    "select_products env (map item_product_id items) db = Inr ps"
    "total_amount ps 0 items = Inr t"
    "insert_order env u t addr db = Inr (ord, db1)"
    "order_items_for (ord_id ord) ps items = Inr rows"
    "insert_order_items env rows db1 = Inr db2"
    "db' = update_session_id env (ord_id ord) (session_id session) db2"
  using assms(1)
proof (cases rule: checkout_cases)
  case unauthorized
  then show ?thesis using assms(2) by (simp add: status_json_response)
next
  case (no_body u)
  then show ?thesis using assms(2) by (simp add: status_caught)
next
  case (bad_address u body e)
  then show ?thesis using assms(2) by (simp add: status_caught)
next
  case (empty_cart u body addr)
  then show ?thesis using assms(2) by (simp add: status_json_response)
next
  case (select_failed u body addr items e)
  then show ?thesis using assms(2) by (simp add: status_caught)
next
  case (unknown_product u body addr items ps e)
  then show ?thesis using assms(2) by (simp add: status_caught)
next
  case (ordering u body addr items ps lis t)
  from ordering(10) show ?thesis
  proof (cases rule: create_order_cases)
    case (order_failed e)
    then show ?thesis using assms(2) by (simp add: status_caught)
  next
    case (type_error ord db1 e)
    then show ?thesis using assms(2) by (simp add: status_caught)
  next
    case (items_failed ord db1 rows e)
    then show ?thesis using assms(2) by (simp add: status_caught)
  next
    case (stripe_failed ord db1 rows db2 m)
    then show ?thesis using assms(2) by (simp add: status_caught)
  next
    case (created ord db1 rows db2 session)
    from ordering(3,5,6,7,9) created(1,2,3,5) show ?thesis by (rule that)
  qed
qed

lemma create_order_no_type_error:
  assumes "create_order env u addr items ps lis t db log = (resp, db', log')"
    and "line_items ps items = Inr lis"
  shows "payload resp \<noteq> Checkout_failed Type_error"
  using assms(1)
proof (cases rule: create_order_cases)
  case (order_failed e)
  then show ?thesis using insert_order_Inl [of env u t addr db e] by (auto simp: payload_caught)
next
  case (type_error ord db1 e)
  then show ?thesis using order_items_for_after_line_items [OF assms(2), of "ord_id ord"] by simp
next
  case (items_failed ord db1 rows e)
  then show ?thesis using insert_order_items_Inl [of env rows db1 e] by (auto simp: payload_caught)
next
  case (stripe_failed ord db1 rows db2 m)
  then show ?thesis by (simp add: payload_caught)
next
  case (created ord db1 rows db2 session)
  then show ?thesis by (simp add: payload_json_response)
qed

lemma checkout_no_type_error:
  assumes "checkout_POST env request db = (resp, db', log)"
  shows "payload resp \<noteq> Checkout_failed Type_error"
  using assms
proof (cases rule: checkout_cases)
  case unauthorized
  then show ?thesis by (simp add: payload_json_response)
next
  case (no_body u)
  then show ?thesis by (simp add: payload_caught)
next
  case (bad_address u body e)
  then show ?thesis using parse_shipping_address_Inl [of "body_shipping_address body" e]
    by (auto simp: payload_caught)
next
  case (empty_cart u body addr)
  then show ?thesis by (simp add: payload_json_response)
next
  case (select_failed u body addr items e)
  then show ?thesis using select_products_Inl [of env "map item_product_id items" db e]
    by (auto simp: payload_caught)
next
  case (unknown_product u body addr items ps e)
  then show ?thesis using line_items_Inl [of ps items e] by (auto simp: payload_caught)
next
  case (ordering u body addr items ps lis t)
  then show ?thesis using create_order_no_type_error by blast
qed

text \<open>A price sent by the client reaches no part of the handler.\<close>

lemma line_items_client_price:
  "line_items ps (map (\<lambda>i. i\<lparr>item_price := f i\<rparr>) items) = line_items ps items"
  by (induction items) (simp_all split: option.splits sum.splits)

lemma total_amount_client_price:
  "total_amount ps acc (map (\<lambda>i. i\<lparr>item_price := f i\<rparr>) items) = total_amount ps acc items"
  by (induction items arbitrary: acc) (simp_all split: option.splits)

lemma order_items_for_client_price:
  "order_items_for oid ps (map (\<lambda>i. i\<lparr>item_price := f i\<rparr>) items) = order_items_for oid ps items"
  by (induction items) (simp_all split: option.splits sum.splits)

lemma create_order_client_price:
  "create_order env u addr (map (\<lambda>i. i\<lparr>item_price := f i\<rparr>) items) ps lis t db log =
   create_order env u addr items ps lis t db log"
  unfolding create_order_def order_items_for_client_price by (rule refl)

lemma product_ids_client_price:
  "map item_product_id (map (\<lambda>i. i\<lparr>item_price := f i\<rparr>) items) = map item_product_id items"
  by simp

lemma checkout_client_price:
  "checkout_POST env (with_client_prices f request) db = checkout_POST env request db"
proof (cases "auth_error env \<or> auth_user env = None")
  case True
  then show ?thesis by (simp add: checkout_unauthorized)
next
  case False
  then obtain u where auth: "\<not> auth_error env" "auth_user env = Some u" by auto
  show ?thesis
  proof (cases request)
    case None
    then show ?thesis by (simp add: with_client_prices_def)
  next
    case (Some body)
    let ?g = "\<lambda>i. i\<lparr>item_price := f i\<rparr>"
    let ?body = "body\<lparr>body_cart_items := map_option (map ?g) (body_cart_items body)\<rparr>"
    have req: "with_client_prices f (Some body) = Some ?body"
      by (simp add: with_client_prices_def)
    show ?thesis
    proof (cases "parse_shipping_address (body_shipping_address body)")
      case (Inl e)
      then have "parse_shipping_address (body_shipping_address ?body) = Inl e" by simp
      from checkout_bad_address [OF auth this] checkout_bad_address [OF auth Inl]
      show ?thesis unfolding Some req by simp
    next
      case (Inr addr)
      then have addr: "parse_shipping_address (body_shipping_address ?body) = Inr addr" by simp
      show ?thesis
      proof (cases "body_cart_items body = None \<or> body_cart_items body = Some []")
        case True
        then have "body_cart_items ?body = None \<or> body_cart_items ?body = Some []" by auto
        from checkout_empty_cart [OF auth addr this] checkout_empty_cart [OF auth Inr True]
        show ?thesis unfolding Some req by simp
      next
        case False
        then obtain items where items: "body_cart_items body = Some items" "items \<noteq> []"
          by auto
        then have items': "body_cart_items ?body = Some (map ?g items)" "map ?g items \<noteq> []"
          by simp_all
        from checkout_priced [OF auth addr items', of db] checkout_priced [OF auth Inr items, of db]
        show ?thesis
          unfolding Some req product_ids_client_price line_items_client_price
            total_amount_client_price create_order_client_price
          by simp
      qed
    qed
  qed
qed

lemmas checkout_eval =
  checkout_POST_def create_order_def select_products_def insert_order_def
  insert_order_items_def update_session_id_def parse_shipping_address_def address_issues_def
  find_product_def caught_def json_response_def Let_def

section \<open>The checkout endpoint: verified properties\<close>

text \<open>
  C3, as stated, does not hold. The order and its items are written by two separate store
  calls and nothing undoes the first when the second fails. Here the store rejects the
  order-items insert: the handler answers 500, and the order row stays in the store with
  no item.
\<close>

theorem order_without_items_counterexample:
  "orders shop = [] \<and> order_items shop = [] \<and>
   status (fst (checkout_POST items_insert_down (checkout_body_of home_address_input two_lines) shop))
     = 500 \<and>
   orders (fst (snd (checkout_POST items_insert_down
                       (checkout_body_of home_address_input two_lines) shop)))
     = [(order_o1 Pending None)\<lparr>ord_stripe_session_id := None\<rparr>] \<and>
   order_items (fst (snd (checkout_POST items_insert_down
                       (checkout_body_of home_address_input two_lines) shop))) = []"
  by (simp add: checkout_eval sample_defs)

text \<open>
  C3, amended. Every checkout request ends in one of three ways:
  \<^item> no row is written, and the response is not a success;
  \<^item> the order insert succeeds and the order-items insert fails: the response is the 500
    failure carrying the store's error, and the \<open>pending\<close> order row stays in the store
    with none of its items (never with some of them: the items go in one statement);
  \<^item> one \<open>pending\<close> order row and exactly one order-item row per cart line have been
    written, each item carrying the order's id and the line's product and quantity; the
    cart has at least one line. This is the only way to a success response (it is also
    what a failure of the payment session creation leaves behind).
\<close>

theorem order_write_outcomes:
  assumes "checkout_POST env request db = (resp, db', log)"
  shows "(orders db' = orders db \<and> order_items db' = order_items db \<and> status resp \<noteq> 200) \<or>
         (\<exists>ord e. orders db' = orders db @ [ord] \<and> ord_status ord = Pending \<and>
                  order_items db' = order_items db \<and>
                  resp = json_response (Checkout_failed (Postgrest_error e)) 500 \<and>
                  last log = Insert_order_items) \<or>
         (\<exists>body items ord rows.
             request = Some body \<and> body_cart_items body = Some items \<and> items \<noteq> [] \<and>
             orders db' = orders db @ [ord] \<and> ord_status ord = Pending \<and>
             order_items db' = order_items db @ rows \<and>
             list_all2 (\<lambda>i r. oi_order_id r = ord_id ord \<and>
                               oi_product_id r = item_product_id i \<and>
                               oi_quantity r = item_quantity i) items rows \<and>
             (status resp = 200 \<or> (\<exists>m. resp = json_response (Checkout_failed (Stripe_error m)) 500)))"
  (is "?none \<or> ?orphan \<or> ?full")
  using assms
proof (cases rule: checkout_cases)
  case unauthorized
  then show ?thesis by (simp add: status_json_response)
next
  case (no_body u)
  then show ?thesis by (simp add: status_caught)
next
  case (bad_address u body e)
  then show ?thesis by (simp add: status_caught)
next
  case (empty_cart u body addr)
  then show ?thesis by (simp add: status_json_response)
next
  case (select_failed u body addr items e)
  then show ?thesis by (simp add: status_caught)
next
  case (unknown_product u body addr items ps e)
  then show ?thesis by (simp add: status_caught)
next
  case (ordering u body addr items ps lis t)
  from ordering(10) show ?thesis
  proof (cases rule: create_order_cases)
    case (order_failed e)
    then have ?none by (simp add: status_caught)
    then show ?thesis by blast
  next
    case (type_error ord db1 e)
    then show ?thesis
      using order_items_for_after_line_items [OF ordering(8), of "ord_id ord"] by simp
  next
    case (items_failed ord db1 rows e)
    from insert_order_items_Inl [OF items_failed(3)] obtain d where "e = Postgrest_error d"
      by (rule exE)
    with items_failed insert_order_Inr(2,6) [OF items_failed(1)]
    have ?orphan by (auto simp: caught_def)
    then show ?thesis by blast
  next
    case (stripe_failed ord db1 rows db2 m)
    note tables = rows_written [OF stripe_failed(1,3)]
    have "list_all2 (\<lambda>i r. oi_order_id r = ord_id ord \<and>
                               oi_product_id r = item_product_id i \<and>
                               oi_quantity r = item_quantity i) items rows"
      using order_items_for_rows [OF stripe_failed(2)]
      by (rule list_all2_mono) simp
    with tables(1,2) stripe_failed(4,5) insert_order_Inr(2) [OF stripe_failed(1)] ordering(3,5,6)
    have ?full by (auto simp: caught_def)
    then show ?thesis by blast
  next
    case (created ord db1 rows db2 session)
    note tables = rows_written [OF created(1,3)]
    from update_session_id_fresh [OF tables(1), of env "session_id session"]
      insert_order_Inr(1,7) [OF created(1)]
    obtain ord' where ord': "orders db' = orders db @ [ord']" "ord_id ord' = ord_id ord"
      "ord_status ord' = ord_status ord"
      using created(5) by auto
    have "list_all2 (\<lambda>i r. oi_order_id r = ord_id ord' \<and>
                               oi_product_id r = item_product_id i \<and>
                               oi_quantity r = item_quantity i) items rows"
      unfolding ord'(2)
      using order_items_for_rows [OF created(2)]
      by (rule list_all2_mono) simp
    with tables(2) ord' created(4,5) insert_order_Inr(2) [OF created(1)] ordering(3,5,6)
    have ?full by (auto simp: update_session_id_tables status_json_response)
    then show ?thesis by blast
  qed
qed

theorem order_write_outcomes_witness:
  "status (fst (checkout_POST services_up (checkout_body_of home_address_input two_lines) shop))
     = 200 \<and>
   orders shop = [] \<and> order_items shop = [] \<and>
   length (orders (fst (snd (checkout_POST services_up
             (checkout_body_of home_address_input two_lines) shop)))) = 1 \<and>
   length (order_items (fst (snd (checkout_POST services_up
             (checkout_body_of home_address_input two_lines) shop)))) = length two_lines"
proof -
  obtain resp db' log
    where r: "checkout_POST services_up (checkout_body_of home_address_input two_lines) shop
                = (resp, db', log)"
    by (cases "checkout_POST services_up (checkout_body_of home_address_input two_lines) shop")
  have "status (fst (checkout_POST services_up (checkout_body_of home_address_input two_lines)
                       shop)) = 200"
    by (simp add: checkout_eval sample_defs)
  then have ok: "status resp = 200"
    by (simp add: r)
  have cart: "checkout_body_of home_address_input two_lines =
                Some \<lparr>body_shipping_address = Some home_address_input,
                      body_cart_items = Some two_lines\<rparr>"
    by (simp add: checkout_body_of_def)
  have empty: "orders shop = []" "order_items shop = []"
    by (simp_all add: shop_def)
  from order_write_outcomes [OF r] ok
  have "length (orders db') = 1 \<and> length (order_items db') = length two_lines"
    by (auto simp: cart empty caught_def json_response_def dest: list_all2_lengthD)
  with r ok empty show ?thesis by simp
qed

text \<open>
  C4. For an authenticated checkout request whose cart holds a product id that no catalog
  row has, the checkout fails with status 500, the store is left exactly as it was and no
  write call is made, so no order and no order item is created. When the request gets as
  far as the catalog lookup (the address validates) and the lookup itself returns rows,
  the failure is the unknown-product error for the first such id of the cart, raised
  after the one products select.
\<close>

theorem unknown_product_aborts:
  assumes "\<not> auth_error env" and "auth_user env = Some u"
    and "body_cart_items body = Some items"
    and "\<exists>i \<in> set items. item_product_id i \<notin> prod_id ` set (products db)"
  shows "status (fst (checkout_POST env (Some body) db)) = 500 \<and>
         fst (snd (checkout_POST env (Some body) db)) = db \<and>
         \<not> list_ex is_write (snd (snd (checkout_POST env (Some body) db))) \<and>
         (\<forall>addr. parse_shipping_address (body_shipping_address body) = Inr addr \<and>
                 products_error env = None \<longrightarrow>
            (\<exists>i. List.find (\<lambda>i. item_product_id i \<notin> prod_id ` set (products db)) items = Some i \<and>
                 checkout_POST env (Some body) db =
                   (json_response (Checkout_failed (Product_not_found (item_product_id i))) 500,
                    db, [Select_products (map item_product_id items)])))"
proof -
  obtain resp db' log where r: "checkout_POST env (Some body) db = (resp, db', log)"
    by (cases "checkout_POST env (Some body) db")
  from find_unknown_exists [OF assms(4)] obtain i0
    where i0: "List.find (\<lambda>i. item_product_id i \<notin> prod_id ` set (products db)) items = Some i0"
    by (rule exE)
  from assms(4) have ne: "items \<noteq> []" by auto
  have unresolved: "line_items ps items = Inl (Product_not_found (item_product_id i0))"
    if "select_products env (map item_product_id items) db = Inr ps" for ps
  proof -
    have "List.find (\<lambda>i. find_product ps (item_product_id i) = None) items = Some i0"
      using first_unknown_selected [OF select_products_Inr(1) [OF that]] i0 by simp
    then show ?thesis by (rule line_items_first_unknown)
  qed
  from r have "status resp = 500 \<and> db' = db \<and> \<not> list_ex is_write log \<and>
    (\<forall>addr. parse_shipping_address (body_shipping_address body) = Inr addr \<and>
            products_error env = None \<longrightarrow>
       (resp, db', log) =
         (json_response (Checkout_failed (Product_not_found (item_product_id i0))) 500,
          db, [Select_products (map item_product_id items)]))"
  proof (cases rule: checkout_cases)
    case unauthorized
    then show ?thesis using assms(1,2) by simp
  next
    case (no_body u)
    then show ?thesis by simp
  next
    case (bad_address u body e)
    then show ?thesis by (simp add: status_caught)
  next
    case (empty_cart u b addr)
    then show ?thesis using assms(3) ne by auto
  next
    case (select_failed u b addr its e)
    then show ?thesis
      using select_products_Inl_error [of env "map item_product_id its" db e]
      by (auto simp: status_caught)
  next
    case (unknown_product u b addr its ps e)
    then have "its = items" using assms(3) by simp
    with unknown_product(7,8) unresolved [of ps] have "e = Product_not_found (item_product_id i0)"
      by simp
    with unknown_product(9-11) \<open>its = items\<close> show ?thesis
      by (simp add: caught_def status_json_response)
  next
    case (ordering u b addr its ps lis t)
    then have "its = items" using assms(3) by simp
    with ordering(7,8) unresolved [of ps] show ?thesis by simp
  qed
  with r i0 show ?thesis by simp
qed

theorem unknown_product_aborts_witness:
  "List.find (\<lambda>i. item_product_id i \<notin> prod_id ` set (products shop)) unknown_line
     = Some \<lparr>item_product_id = ''p9'', item_quantity = 1, item_price = None\<rparr> \<and>
   checkout_POST services_up (checkout_body_of home_address_input unknown_line) shop =
     (json_response (Checkout_failed (Product_not_found ''p9'')) 500, shop,
      [Select_products [''p1'', ''p9'']])"
proof -
  let ?body = "\<lparr>body_shipping_address = Some home_address_input,
                 body_cart_items = Some unknown_line\<rparr>"
  have auth: "\<not> auth_error services_up" "auth_user services_up = Some alice"
    by (simp_all add: services_up_def)
  have cart: "body_cart_items ?body = Some unknown_line" by simp
  have first: "List.find (\<lambda>i. item_product_id i \<notin> prod_id ` set (products shop)) unknown_line
     = Some \<lparr>item_product_id = ''p9'', item_quantity = 1, item_price = None\<rparr>"
    by (simp add: unknown_line_def shop_def midnight_oud_def amber_candle_def)
  then have unknown: "\<exists>i \<in> set unknown_line. item_product_id i \<notin> prod_id ` set (products shop)"
    by (auto simp: find_Some_iff)
  have good: "parse_shipping_address (body_shipping_address ?body) = Inr home_address"
    by (simp add: parse_shipping_address_def address_issues_def home_address_input_def
        home_address_def)
  have up: "products_error services_up = None" by (simp add: services_up_def)
  have ids: "map item_product_id unknown_line = [''p1'', ''p9'']"
    by (simp add: unknown_line_def)
  from unknown_product_aborts [OF auth cart unknown] good up first ids
  show ?thesis by (simp add: checkout_body_of_def)
qed

text \<open>
  C5. After a successful checkout (status 200), in a store where every order item refers to
  an order, exactly one order has been added, and its \<open>total_amount\<close> is the sum of
  \<open>product_price \<times> quantity\<close> over the order-item rows that carry its id. These rows
  correspond one to one to the cart lines, with the line's product and quantity and the
  price the catalog holds for the product at checkout. The total is computed on integers.
  A price sent by the client has no influence: replacing the client-supplied prices by any
  others gives the same response, the same store and the same calls.
\<close>

theorem order_total_is_sum_of_items:
  assumes "checkout_POST env request db = (resp, db', log)" and "status resp = 200"
    and "\<forall>r \<in> set (order_items db). oi_order_id r \<in> set (map ord_id (orders db))"
  shows "\<exists>ord body items.
           request = Some body \<and> body_cart_items body = Some items \<and>
           orders db' = orders db @ [ord] \<and>
           ord_total_amount ord =
             sum_list (map (\<lambda>r. oi_product_price r * oi_quantity r)
                           (filter (\<lambda>r. oi_order_id r = ord_id ord) (order_items db'))) \<and>
           list_all2 (\<lambda>i r. oi_product_id r = item_product_id i \<and>
                             oi_quantity r = item_quantity i \<and>
                             (\<exists>p. find_product (products db) (item_product_id i) = Some p \<and>
                                  oi_product_price r = prod_price p))
                     items (filter (\<lambda>r. oi_order_id r = ord_id ord) (order_items db')) \<and>
           (\<forall>f. checkout_POST env (with_client_prices f request) db = (resp, db', log))"
  using assms(1,2)
proof (cases rule: checkout_success)
  case 1: (created u body addr items ps t ord db1 rows db2 session)
  note ins = insert_order_Inr [OF 1(6)]
  note tables = rows_written [OF 1(6,8)]
  from update_session_id_fresh [OF tables(1), of env "session_id session"] ins(1,7)
  obtain ord' where ord': "orders db' = orders db @ [ord']" "ord_id ord' = ord_id ord"
    "ord_total_amount ord' = ord_total_amount ord"
    using 1(9) by auto
  have items': "order_items db' = order_items db @ rows"
    using 1(9) tables(2) by (simp add: update_session_id_tables)
  note rel = order_items_for_rows [OF 1(7)]
  have own: "\<forall>r \<in> set rows. oi_order_id r = ord_id ord"
    using rel by (auto simp: list_all2_conv_all_nth in_set_conv_nth)
  have old: "\<forall>r \<in> set (order_items db). oi_order_id r \<noteq> ord_id ord"
    using assms(3) ins(1,7) by metis
  have mine: "filter (\<lambda>r. oi_order_id r = ord_id ord') (order_items db') = rows"
    using own old by (simp add: items' ord'(2))
  have total: "ord_total_amount ord' =
                 sum_list (map (\<lambda>r. oi_product_price r * oi_quantity r) rows)"
    using total_amount_rows [OF 1(7), of 0] 1(5) ins(3) ord'(3) by simp
  have priced: "list_all2 (\<lambda>i r. oi_product_id r = item_product_id i \<and>
                             oi_quantity r = item_quantity i \<and>
                             (\<exists>p. find_product (products db) (item_product_id i) = Some p \<and>
                                  oi_product_price r = prod_price p)) items rows"
  proof (rule list.rel_mono_strong [OF rel])
    fix i r
    assume "i \<in> set items" and "r \<in> set rows"
      and "oi_order_id r = ord_id ord \<and> oi_product_id r = item_product_id i \<and>
           oi_quantity r = item_quantity i \<and>
           (\<exists>p. find_product ps (item_product_id i) = Some p \<and>
                oi_product_name r = prod_name p \<and> oi_product_price r = prod_price p)"
    then show "oi_product_id r = item_product_id i \<and> oi_quantity r = item_quantity i \<and>
               (\<exists>p. find_product (products db) (item_product_id i) = Some p \<and>
                    oi_product_price r = prod_price p)"
      using catalog_price [OF select_products_Inr(1) [OF 1(4)], of i] by auto
  qed
  have free: "\<forall>f. checkout_POST env (with_client_prices f request) db = (resp, db', log)"
    using assms(1) by (simp add: checkout_client_price)
  from 1(1,2) ord'(1) total priced free show ?thesis
    unfolding mine [symmetric] by blast
qed

theorem order_total_is_sum_of_items_witness:
  "status (fst (checkout_POST services_up (checkout_body_of home_address_input two_lines) shop))
     = 200 \<and>
   order_items shop = [] \<and>
   map ord_total_amount (orders (fst (snd (checkout_POST services_up
       (checkout_body_of home_address_input two_lines) shop)))) = [30700] \<and>
   map (\<lambda>r. oi_product_price r * oi_quantity r) (order_items (fst (snd (checkout_POST services_up
       (checkout_body_of home_address_input two_lines) shop)))) = [25800, 4900] \<and>
   checkout_POST services_up
       (with_client_prices (\<lambda>i. Some 0) (checkout_body_of home_address_input two_lines)) shop
     = checkout_POST services_up (checkout_body_of home_address_input two_lines) shop"
proof -
  let ?request = "checkout_body_of home_address_input two_lines"
  obtain resp db' log where r: "checkout_POST services_up ?request shop = (resp, db', log)"
    by (cases "checkout_POST services_up ?request shop")
  have "status (fst (checkout_POST services_up ?request shop)) = 200"
    by (simp add: checkout_eval sample_defs)
  then have ok: "status resp = 200"
    by (simp add: r)
  have none: "order_items shop = []"
    by (simp add: shop_def)
  then have fk: "\<forall>r \<in> set (order_items shop). oi_order_id r \<in> set (map ord_id (orders shop))"
    by simp
  have totals: "map ord_total_amount (orders (fst (snd (checkout_POST services_up ?request shop))))
                  = [30700]"
    by (simp add: checkout_eval sample_defs)
  have lines: "map (\<lambda>r. oi_product_price r * oi_quantity r)
                 (order_items (fst (snd (checkout_POST services_up ?request shop))))
                  = [25800, 4900]"
    by (simp add: checkout_eval sample_defs)
  from order_total_is_sum_of_items [OF r ok fk]
  have "checkout_POST services_up (with_client_prices (\<lambda>i. Some 0) ?request) shop = (resp, db', log)"
    by blast
  with r ok none totals lines show ?thesis by simp
qed

text \<open>
  C8. When every cart item's product is found among the selected rows, the total and the
  order items are computed without reading a property of \<open>undefined\<close>. When some item's
  product is not found, the line-item mapping, which runs first, throws the product-not-found
  error. Hence no run of the handler ends in the \<open>TypeError\<close> of a \<open>product!\<close>
  dereference.
\<close>

theorem non_null_assertions_never_fail:
  "((\<forall>i \<in> set items. find_product ps (item_product_id i) \<noteq> None) \<longrightarrow>
      (\<exists>t. total_amount ps 0 items = Inr t) \<and>
      (\<exists>rows. order_items_for oid ps items = Inr rows)) \<and>
   ((\<exists>i \<in> set items. find_product ps (item_product_id i) = None) \<longrightarrow>
      (\<exists>pid. line_items ps items = Inl (Product_not_found pid))) \<and>
   payload (fst (checkout_POST env request db)) \<noteq> Checkout_failed Type_error"
proof (intro conjI impI)
  assume "\<forall>i \<in> set items. find_product ps (item_product_id i) \<noteq> None"
  then show "\<exists>t. total_amount ps 0 items = Inr t"
    and "\<exists>rows. order_items_for oid ps items = Inr rows"
    by (rule total_amount_resolved, rule order_items_for_resolved)
next
  assume unknown: "\<exists>i \<in> set items. find_product ps (item_product_id i) = None"
  show "\<exists>pid. line_items ps items = Inl (Product_not_found pid)"
  proof (cases "line_items ps items")
    case (Inl e)
    then show ?thesis using line_items_Inl [OF Inl] by auto
  next
    case (Inr ls)
    then show ?thesis using line_items_Inr [OF Inr] unknown by blast
  qed
next
  obtain resp db' log where "checkout_POST env request db = (resp, db', log)"
    by (cases "checkout_POST env request db")
  then show "payload (fst (checkout_POST env request db)) \<noteq> Checkout_failed Type_error"
    using checkout_no_type_error by fastforce
qed

theorem non_null_assertions_never_fail_witness:
  "find_product [midnight_oud, amber_candle] ''p1'' = Some midnight_oud \<and>
   find_product [midnight_oud, amber_candle] ''p2'' = Some amber_candle \<and>
   total_amount [midnight_oud, amber_candle] 0 two_lines = Inr 30700 \<and>
   (\<exists>rows. order_items_for ''o1'' [midnight_oud, amber_candle] two_lines = Inr rows) \<and>
   find_product [midnight_oud, amber_candle] ''p9'' = None \<and>
   line_items [midnight_oud, amber_candle] unknown_line = Inl (Product_not_found ''p9'')"
proof -
  let ?ps = "[midnight_oud, amber_candle]"
  have f: "find_product ?ps ''p1'' = Some midnight_oud"
    "find_product ?ps ''p2'' = Some amber_candle" "find_product ?ps ''p9'' = None"
    by (simp_all add: find_product_def midnight_oud_def amber_candle_def)
  have known: "\<forall>i \<in> set two_lines. find_product ?ps (item_product_id i) \<noteq> None"
    using f by (simp add: two_lines_def)
  have unknown: "\<exists>i \<in> set unknown_line. find_product ?ps (item_product_id i) = None"
    using f by (simp add: unknown_line_def)
  have t: "total_amount ?ps 0 two_lines = Inr 30700"
    by (simp add: two_lines_def find_product_def midnight_oud_def amber_candle_def)
  have l: "line_items ?ps unknown_line = Inl (Product_not_found ''p9'')"
    by (simp add: unknown_line_def find_product_def midnight_oud_def amber_candle_def)
  from non_null_assertions_never_fail [of two_lines ?ps "''o1''"] known
  have "\<exists>rows. order_items_for ''o1'' ?ps two_lines = Inr rows"
    by blast
  moreover
  from non_null_assertions_never_fail [of unknown_line ?ps] unknown
  have "\<exists>pid. line_items ?ps unknown_line = Inl (Product_not_found pid)"
    by blast
  ultimately show ?thesis using f t l by simp
qed

text \<open>
  C10. For an authenticated request with a parsed body, the shipping address is validated
  before the cart is looked at: when the address fails validation the response is the 500
  failure carrying the validation error, whether or not the cart is empty; the empty-cart
  response is given only when the address validates and the cart is absent or empty. On
  both paths the store is unchanged and no table is read or written.
\<close>

theorem address_checked_before_cart:
  assumes "\<not> auth_error env" and "auth_user env = Some u"
  shows "(\<forall>e. parse_shipping_address (body_shipping_address body) = Inl e \<longrightarrow>
            (\<exists>issues. e = Zod_error issues) \<and>
            checkout_POST env (Some body) db = (json_response (Checkout_failed e) 500, db, [])) \<and>
         (payload (fst (checkout_POST env (Some body) db)) = Cart_is_empty \<longrightarrow>
            (\<exists>addr. parse_shipping_address (body_shipping_address body) = Inr addr) \<and>
            (body_cart_items body = None \<or> body_cart_items body = Some []) \<and>
            checkout_POST env (Some body) db = (json_response Cart_is_empty 400, db, []))"
proof (intro conjI allI impI)
  fix e
  assume bad: "parse_shipping_address (body_shipping_address body) = Inl e"
  then show "\<exists>issues. e = Zod_error issues"
    by (rule parse_shipping_address_Inl)
  show "checkout_POST env (Some body) db = (json_response (Checkout_failed e) 500, db, [])"
    using checkout_bad_address [OF assms bad, of db] by (simp add: caught_def)
next
  assume empty: "payload (fst (checkout_POST env (Some body) db)) = Cart_is_empty"
  obtain resp db' log where r: "checkout_POST env (Some body) db = (resp, db', log)"
    by (cases "checkout_POST env (Some body) db")
  with empty have p: "payload resp = Cart_is_empty" by simp
  from r have "(\<exists>addr. parse_shipping_address (body_shipping_address body) = Inr addr) \<and>
      (body_cart_items body = None \<or> body_cart_items body = Some []) \<and>
      (resp, db', log) = (json_response Cart_is_empty 400, db, [])"
  proof (cases rule: checkout_cases)
    case unauthorized
    then show ?thesis using p by (simp add: payload_json_response)
  next
    case (no_body u)
    then show ?thesis by simp
  next
    case (bad_address u body e)
    then show ?thesis using p by (simp add: payload_caught)
  next
    case (empty_cart u b addr)
    then show ?thesis by auto
  next
    case (select_failed u body addr items e)
    then show ?thesis using p by (simp add: payload_caught)
  next
    case (unknown_product u body addr items ps e)
    then show ?thesis using p by (simp add: payload_caught)
  next
    case (ordering u b addr items ps lis t)
    from ordering(10) show ?thesis
      by (cases rule: create_order_cases) (use p in \<open>simp_all add: payload_caught payload_json_response\<close>)
  qed
  then show "\<exists>addr. parse_shipping_address (body_shipping_address body) = Inr addr"
    and "body_cart_items body = None \<or> body_cart_items body = Some []"
    and "checkout_POST env (Some body) db = (json_response Cart_is_empty 400, db, [])"
    using r by simp_all
qed

theorem address_checked_before_cart_witness:
  "parse_shipping_address (Some nameless_address_input) =
     Inl (Zod_error [(''full_name'', Too_small ''Full name is required'')]) \<and>
   checkout_POST services_up (checkout_body_of nameless_address_input []) shop =
     (json_response
        (Checkout_failed (Zod_error [(''full_name'', Too_small ''Full name is required'')])) 500,
      shop, []) \<and>
   parse_shipping_address (Some home_address_input) = Inr home_address \<and>
   checkout_POST services_up (checkout_body_of home_address_input []) shop =
     (json_response Cart_is_empty 400, shop, [])"
proof -
  let ?bad = "\<lparr>body_shipping_address = Some nameless_address_input, body_cart_items = Some []\<rparr>"
  let ?good = "\<lparr>body_shipping_address = Some home_address_input, body_cart_items = Some []\<rparr>"
  have auth: "\<not> auth_error services_up" "auth_user services_up = Some alice"
    by (simp_all add: services_up_def)
  have bad: "parse_shipping_address (body_shipping_address ?bad) =
               Inl (Zod_error [(''full_name'', Too_small ''Full name is required'')])"
    by (simp add: parse_shipping_address_def address_issues_def nameless_address_input_def
        home_address_input_def)
  have good: "parse_shipping_address (Some home_address_input) = Inr home_address"
    by (simp add: parse_shipping_address_def address_issues_def home_address_input_def
        home_address_def)
  have empty: "payload (fst (checkout_POST services_up (Some ?good) shop)) = Cart_is_empty"
    by (simp add: checkout_POST_def good services_up_def json_response_def)
  from address_checked_before_cart [OF auth, of ?bad shop] bad
  have 1: "checkout_POST services_up (Some ?bad) shop =
     (json_response
        (Checkout_failed (Zod_error [(''full_name'', Too_small ''Full name is required'')])) 500,
      shop, [])"
    by simp
  from address_checked_before_cart [OF auth, of ?good shop] empty
  have 2: "checkout_POST services_up (Some ?good) shop = (json_response Cart_is_empty 400, shop, [])"
    by blast
  from 1 2 bad good show ?thesis by (simp add: checkout_body_of_def)
qed

end
